theory Spec2Isabelle
  imports Complex_Main "HOL-Library.FSet" "HOL-Library.AList"
begin

section \<open>JavaScript numbers\<close>

text \<open>
  Every JavaScript number of \<^verbatim>\<open>server.js\<close> is an IEEE-754 binary64 value. A finite
  double is a rational, so the model computes with \<^typ>\<open>rat\<close> and rounds the exact result
  of every division, product and difference of the source to the nearest double, ties to
  the even significand (\<open>dbl\<close>). The exponent range is not bounded: the model is exact as
  long as no overflow or underflow to a subnormal occurs, which needs magnitudes beyond
  \<open>2 ^ 1023\<close> or below \<open>2 ^ - 1022\<close>. Integers (lengths, scores, milliseconds) stay below
  \<open>2 ^ 53\<close> in the program and are kept as \<^typ>\<open>nat\<close> and \<^typ>\<open>int\<close>. Division by zero
  (\<^verbatim>\<open>NaN\<close>, \<^verbatim>\<open>Infinity\<close>) is outside the model; see \<open>basePoints\<close>.
\<close>

type_synonym number = rat

text \<open>The number of binary digits of a positive integer.\<close>

function bitlen :: "int \<Rightarrow> int" where
  "bitlen n = (if n \<le> 0 then 0 else 1 + bitlen (n div 2))"
  by pat_completeness auto
termination
  by (relation "measure nat") auto

declare bitlen.simps [simp del]

text \<open>\<open>ilog2 x\<close> is the exponent \<open>e\<close> with \<open>2 ^ e \<le> x < 2 ^ (e + 1)\<close>, for \<open>x > 0\<close>.\<close>

definition ilog2 :: "rat \<Rightarrow> int" where
  "ilog2 x =
     (let (p, q) = quotient_of x;
          k = bitlen p - bitlen q
      in if 2 powi k \<le> x then k else k - 1)"

definition round_half_even :: "rat \<Rightarrow> int" where
  "round_half_even m =
     (let f = \<lfloor>m\<rfloor>; d = m - of_int f
      in if d < 1 / 2 then f else if 1 / 2 < d then f + 1
         else if even f then f else f + 1)"

definition dbl :: "rat \<Rightarrow> number" where
  "dbl x =
     (if x = 0 then 0
      else let u = 2 powi (ilog2 \<bar>x\<bar> - 52)
           in sgn x * of_int (round_half_even (\<bar>x\<bar> / u)) * u)"

text \<open>\<^verbatim>\<open>Math.round\<close>: the nearest integer, a tie going up.\<close>

definition Math_round :: "number \<Rightarrow> int" where
  "Math_round x = \<lfloor>x + 1 / 2\<rfloor>"

section \<open>Strings\<close>

text \<open>
  A JavaScript string is a sequence of UTF-16 code units. The model covers the strings
  whose code units are below 256 (Latin-1), one \<^typ>\<open>char\<close> per code unit.
\<close>

definition toLowerChar :: "char \<Rightarrow> char" where
  "toLowerChar ch =
     (let n = (of_char ch :: nat)
      in if (65 \<le> n \<and> n \<le> 90) \<or> (192 \<le> n \<and> n \<le> 222 \<and> n \<noteq> 215)
         then char_of (n + 32) else ch)"

definition toLowerCase :: "string \<Rightarrow> string" where
  "toLowerCase s = map toLowerChar s"

text \<open>The class \<^verbatim>\<open>\s\<close> below 256: tab, LF, VT, FF, CR, space and the no-break space.\<close>

definition isSpace :: "char \<Rightarrow> bool" where
  "isSpace ch = ((of_char ch :: nat) \<in> {9, 10, 11, 12, 13, 32, 160})"

definition isLowerAlnum :: "char \<Rightarrow> bool" where
  "isLowerAlnum ch =
     (let n = (of_char ch :: nat) in (97 \<le> n \<and> n \<le> 122) \<or> (48 \<le> n \<and> n \<le> 57))"

definition trim :: "string \<Rightarrow> string" where
  "trim s = rev (dropWhile isSpace (rev (dropWhile isSpace s)))"

text \<open>\<^verbatim>\<open>replace(/\s+/g, ' ')\<close>: every maximal run of white space becomes one space.
  The flag says that the previous character was white space.\<close>

primrec collapse :: "bool \<Rightarrow> string \<Rightarrow> string" where
  "collapse inrun [] = []"
| "collapse inrun (ch # cs) =
     (if isSpace ch then (if inrun then collapse True cs else CHR '' '' # collapse True cs)
      else ch # collapse False cs)"

definition normalize_js :: "string \<Rightarrow> string" where
  "normalize_js str =
     collapse False (filter (\<lambda>ch. isLowerAlnum ch \<or> isSpace ch) (trim (toLowerCase str)))"

primrec startsWith :: "string \<Rightarrow> string \<Rightarrow> bool" where
  "startsWith s [] = True"
| "startsWith s (y # ys) = (case s of [] \<Rightarrow> False | x # xs \<Rightarrow> x = y \<and> startsWith xs ys)"

primrec includes_js :: "string \<Rightarrow> string \<Rightarrow> bool" where
  "includes_js [] t = (t = [])"
| "includes_js (x # xs) t = (startsWith (x # xs) t \<or> includes_js xs t)"

text \<open>\<^verbatim>\<open>str.split(' ')\<close> and \<^verbatim>\<open>words.join(' ')\<close>.\<close>

primrec split :: "string \<Rightarrow> string list" where
  "split [] = [[]]"
| "split (ch # cs) =
     (if ch = CHR '' '' then [] # split cs
      else (case split cs of [] \<Rightarrow> [[ch]] | w # ws \<Rightarrow> (ch # w) # ws))"

fun join :: "string list \<Rightarrow> string" where
  "join [] = []"
| "join [w] = w"
| "join (w # ws) = w @ CHR '' '' # join ws"

section \<open>Edit distance\<close>

text \<open>The table \<^verbatim>\<open>dp\<close> of \<^verbatim>\<open>levenshtein\<close> and its two loops, updated in place.\<close>

definition dp_init :: "nat \<Rightarrow> nat \<Rightarrow> nat list list" where
  "dp_init m n =
     map (\<lambda>i. map (\<lambda>j. if i = 0 then j else if j = 0 then i else 0) [0..<Suc n]) [0..<Suc m]"

definition dp_cell :: "string \<Rightarrow> string \<Rightarrow> nat \<Rightarrow> nat \<Rightarrow> nat list list \<Rightarrow> nat" where
  "dp_cell a b i j dp =
     (if a ! (i - 1) = b ! (j - 1) then dp ! (i - 1) ! (j - 1)
      else 1 + min (dp ! (i - 1) ! j) (min (dp ! i ! (j - 1)) (dp ! (i - 1) ! (j - 1))))"

function lev_inner :: "string \<Rightarrow> string \<Rightarrow> nat \<Rightarrow> nat \<Rightarrow> nat list list \<Rightarrow> nat list list" where
  "lev_inner a b i j dp =
     (if j \<le> length b
      then lev_inner a b i (Suc j) (dp[i := (dp ! i)[j := dp_cell a b i j dp]])
      else dp)"
  by pat_completeness auto
termination
  by (relation "measure (\<lambda>(a, b, i, j, dp). Suc (length b) - j)") auto

declare lev_inner.simps [simp del]

function lev_outer :: "string \<Rightarrow> string \<Rightarrow> nat \<Rightarrow> nat list list \<Rightarrow> nat list list" where
  "lev_outer a b i dp =
     (if i \<le> length a then lev_outer a b (Suc i) (lev_inner a b i 1 dp) else dp)"
  by pat_completeness auto
termination
  by (relation "measure (\<lambda>(a, b, i, dp). Suc (length a) - i)") auto

declare lev_outer.simps [simp del]

definition levenshtein :: "string \<Rightarrow> string \<Rightarrow> nat" where
  "levenshtein a b = lev_outer a b 1 (dp_init (length a) (length b)) ! length a ! length b"

section \<open>The matching engine\<close>

definition stopWords :: "string list" where
  "stopWords = [''the'', ''of'', ''a'', ''an'', ''at'', ''in'', ''on'', ''le'', ''la'', ''el'',
     ''de'', ''di'', ''du'']"

definition stripStop :: "string \<Rightarrow> string" where
  "stripStop str = join (filter (\<lambda>w. w \<notin> set stopWords) (split str))"

definition stripVowels :: "string \<Rightarrow> string" where
  "stripVowels str = filter (\<lambda>ch. ch \<notin> set ''aeiou'') str"

text \<open>\<^verbatim>\<open>distance / maxLen\<close> with the guard of the source, \<^verbatim>\<open>max > 0 ? d / max : 1\<close>.\<close>

definition ratioOf :: "nat \<Rightarrow> nat \<Rightarrow> number" where
  "ratioOf d mx = (if 0 < mx then dbl (of_nat d / of_nat mx) else 1)"

text \<open>The test of the inner loop of the word matching: \<^verbatim>\<open>wordMax > 0 && wordDist / wordMax <= 0.3\<close>.\<close>

definition wordMatches :: "string \<Rightarrow> string \<Rightarrow> bool" where
  "wordMatches cw gw =
     (let wordDist = levenshtein gw cw; wordMax = max (length gw) (length cw)
      in 0 < wordMax \<and> dbl (of_nat wordDist / of_nat wordMax) \<le> dbl (3 / 10))"

text \<open>The two nested loops with \<^verbatim>\<open>break\<close>: the key words matched by some guess word.\<close>

definition matchedWords :: "string list \<Rightarrow> string list \<Rightarrow> nat" where
  "matchedWords cWords gWords = length (filter (\<lambda>cw. list_ex (wordMatches cw) gWords) cWords)"

definition checkAnswer :: "string \<Rightarrow> string \<Rightarrow> number" where
  "checkAnswer guess correctAnswer =
    (if guess = [] \<or> correctAnswer = [] then 0
     else let g = normalize_js guess; c = normalize_js correctAnswer in
      if g = [] \<or> c = [] then 0
      else if g = c then 1
      else if includes_js g c then 1
      else if includes_js c g \<and> dbl (of_nat (length c) * dbl (7 / 10)) \<le> of_nat (length g)
        then dbl (9 / 10)
      else let distance = levenshtein g c; maxLen = max (length g) (length c);
               ratio = ratioOf distance maxLen in
      if ratio \<le> dbl (15 / 100) then dbl (9 / 10)
      else if ratio \<le> dbl (25 / 100) then dbl (8 / 10)
      else if ratio \<le> dbl (35 / 100) then dbl (7 / 10)
      else let gStripped = stripStop g; cStripped = stripStop c;
               sRatio = ratioOf (levenshtein gStripped cStripped)
                          (max (length gStripped) (length cStripped)) in
      if gStripped \<noteq> [] \<and> cStripped \<noteq> [] \<and> gStripped = cStripped then dbl (95 / 100)
      else if gStripped \<noteq> [] \<and> cStripped \<noteq> [] \<and> sRatio \<le> dbl (2 / 10) then dbl (85 / 100)
      else if gStripped \<noteq> [] \<and> cStripped \<noteq> [] \<and> sRatio \<le> dbl (35 / 100) then dbl (7 / 10)
      else let gWords = filter (\<lambda>w. 2 < length w) (split g);
               cWords = filter (\<lambda>w. 2 < length w \<and> w \<notin> set stopWords) (split c);
               wordsOk = (0 < length cWords \<and> 0 < length gWords);
               wordRatio = dbl (of_nat (matchedWords cWords gWords) / of_nat (length cWords)) in
      if wordsOk \<and> 1 \<le> wordRatio then dbl (85 / 100)
      else if wordsOk \<and> dbl (6 / 10) \<le> wordRatio then dbl (6 / 10)
      else if wordsOk \<and> dbl (4 / 10) \<le> wordRatio then dbl (4 / 10)
      else if includes_js c g \<and> dbl (of_nat (length c) * dbl (4 / 10)) \<le> of_nat (length g)
        then dbl (4 / 10)
      else let gNoVowels = stripVowels g; cNoVowels = stripVowels c;
               vDist = levenshtein gNoVowels cNoVowels;
               vMax = max (length gNoVowels) (length cNoVowels) in
      if 3 \<le> length gNoVowels \<and> 3 \<le> length cNoVowels \<and> 0 < vMax
           \<and> dbl (of_nat vDist / of_nat vMax) \<le> dbl (2 / 10)
        then dbl (65 / 100)
      else 0)"

text \<open>
  The reference the specification names: the dynamic-programming recurrence of the
  Levenshtein distance, insertion, deletion and substitution costing 1 each.
  \<open>edit_dist a b i j\<close> is the distance between the first \<open>i\<close> characters of \<open>a\<close> and the
  first \<open>j\<close> characters of \<open>b\<close>.
\<close>

fun edit_dist :: "string \<Rightarrow> string \<Rightarrow> nat \<Rightarrow> nat \<Rightarrow> nat" where
  "edit_dist a b 0 j = j"
| "edit_dist a b (Suc i) 0 = Suc i"
| "edit_dist a b (Suc i) (Suc j) =
     min (edit_dist a b i (Suc j) + 1)
       (min (edit_dist a b (Suc i) j + 1)
            (edit_dist a b i j + (if a ! i = b ! j then 0 else 1)))"


subsection \<open>The ranked decision ladder of the specification\<close>

text \<open>
  Written from section 4.1 of the specification, one definition per rule; a rule gives its
  quality when it fires. The arithmetic is that of the program's numbers.
\<close>



definition edit_ratio :: "string \<Rightarrow> string \<Rightarrow> number" where
  "edit_ratio s t =
     dbl (of_nat (edit_dist s t (length s) (length t)) / of_nat (max (length s) (length t)))"







definition keyWords :: "string \<Rightarrow> string list" where
  "keyWords c = filter (\<lambda>w. 2 < length w \<and> w \<notin> set stopWords) (split c)"

definition guessTokens :: "string \<Rightarrow> string list" where
  "guessTokens g = filter (\<lambda>w. 2 < length w) (split g)"

definition keyWordMatched :: "string \<Rightarrow> string \<Rightarrow> bool" where
  "keyWordMatched g cw = list_ex (\<lambda>gw. edit_ratio gw cw \<le> dbl (3 / 10)) (guessTokens g)"

definition wordRatio :: "string \<Rightarrow> string \<Rightarrow> number" where
  "wordRatio g c =
     (if keyWords c = [] then 0
      else dbl (of_nat (length (filter (keyWordMatched g) (keyWords c)))
                / of_nat (length (keyWords c))))"







section \<open>Rooms, sockets and timers\<close>

datatype room_state = Setup | Lobby | Playing | RoundResult | Finished

record image =
  img_data :: string
  img_name :: string
  img_answer :: string

text \<open>An entry of \<^verbatim>\<open>player.answers\<close>; \<^verbatim>\<open>time: null\<close> and an absent \<^verbatim>\<open>matchQuality\<close>
  are \<open>None\<close>.\<close>

record answerEntry =
  ans_round :: int
  ans_correct :: bool
  ans_points :: int
  ans_time :: "int option"
  ans_matchQuality :: "number option"

record player =
  player_id :: string
  player_name :: string
  score :: int
  answers :: "answerEntry list"
  streak :: int

record room_settings =
  roundTime :: int
  totalRounds :: int

text \<open>
  The room object. \<^verbatim>\<open>players\<close> is a \<^verbatim>\<open>Map\<close>, kept in insertion order as an association
  list (\<^verbatim>\<open>set\<close> is \<open>AList.update\<close>, \<^verbatim>\<open>delete\<close> is \<open>AList.delete\<close>, \<^verbatim>\<open>size\<close> is the length:
  the keys stay distinct); \<^verbatim>\<open>roundAnswered\<close> is a \<^verbatim>\<open>Set\<close>; \<^verbatim>\<open>roundTimer\<close> holds the handle
  of a timer.
\<close>

record room =
  room_id :: string
  hostId :: string
  hostSocketId :: "string option"
  images :: "image list"
  players :: "(string \<times> player) list"
  settings :: room_settings
  state :: room_state
  currentRound :: int
  roundStartTime :: "int option"
  roundTimer :: "nat option"
  roundAnswered :: "string fset"
  createdAt :: int

text \<open>The two properties the handlers hang on a socket: \<^verbatim>\<open>socket.roomId\<close>, \<^verbatim>\<open>socket.isHost\<close>.\<close>

record socket =
  sock_roomId :: "string option"
  isHost :: bool

text \<open>
  A room is an object: a timer callback closes over the object, not over its identifier,
  and still runs on it after the registry has dropped or replaced the entry. The model
  keeps every room object at an address of a heap; a callback holds the address.

  The callbacks given to \<^verbatim>\<open>setTimeout\<close> and \<^verbatim>\<open>setInterval\<close>: \<^verbatim>\<open>() => startRound(room)\<close>; the
  end-of-round timer, which first clears the hint interval of its round; the hint interval
  with the image of its round and the two \<^verbatim>\<open>hintSent\<close> flags.
\<close>

datatype callback =
    StartRoundCb nat
  | EndRoundCb nat nat
  | HintCb nat image bool bool

text \<open>
  The server: the heap of room objects, the address of an object being its index; the
  registry \<^verbatim>\<open>rooms\<close> (a \<^verbatim>\<open>Map\<close>, in insertion order) from the identifier to the room
  object; the connected sockets with their properties; and the pending timers of the event
  loop, each with its handle, callback and delay in milliseconds.
\<close>

record server =
  heap :: "room list"
  rooms :: "(string \<times> nat) list"
  sockets :: "(string \<times> socket) list"
  timers :: "(nat \<times> callback \<times> int) list"
  nextTimer :: nat

text \<open>The room object at an address. Every address that the registry or a callback
  holds was allocated by \<open>createRoom\<close>, so that the object is there.\<close>

definition roomAt :: "server \<Rightarrow> nat \<Rightarrow> room option" where
  "roomAt srv a = (if a < length (heap srv) then Some (heap srv ! a) else None)"

text \<open>\<^verbatim>\<open>rooms.get(roomId)\<close> gives the room object: its address and its present value. A
  handler or a callback mutates the object, which the model writes back with \<open>putRoom\<close>.\<close>

definition getRoom :: "server \<Rightarrow> string \<Rightarrow> (nat \<times> room) option" where
  "getRoom srv roomId =
     (case map_of (rooms srv) roomId of
        None \<Rightarrow> None
      | Some a \<Rightarrow> map_option (Pair a) (roomAt srv a))"

definition putRoom :: "nat \<Rightarrow> room \<Rightarrow> server \<Rightarrow> server" where
  "putRoom a room srv = srv\<lparr>heap := (heap srv)[a := room]\<rparr>"

definition getSocket :: "server \<Rightarrow> string \<Rightarrow> socket option" where
  "getSocket srv sid = map_of (sockets srv) sid"

definition putSocket :: "string \<Rightarrow> socket \<Rightarrow> server \<Rightarrow> server" where
  "putSocket sid socket srv = srv\<lparr>sockets := AList.update sid socket (sockets srv)\<rparr>"

definition setTimer :: "callback \<Rightarrow> int \<Rightarrow> server \<Rightarrow> nat \<times> server" where
  "setTimer cb ms srv =
     (nextTimer srv,
      srv\<lparr>timers := timers srv @ [(nextTimer srv, cb, ms)], nextTimer := Suc (nextTimer srv)\<rparr>)"

definition clearTimer :: "nat \<Rightarrow> server \<Rightarrow> server" where
  "clearTimer h srv = srv\<lparr>timers := AList.delete h (timers srv)\<rparr>"

subsection \<open>What the server emits\<close>

datatype target = ToSocket string | ToRoom string

record playerInfo =
  pi_id :: string
  pi_name :: string
  pi_score :: int
  pi_streak :: int
  pi_correctAnswers :: nat

datatype matchType = Exact | Close | Partial

datatype hint = FirstLetterHint | WordCountHint

text \<open>
  The events, with the fields of their payloads in the order of the source. The values of
  a hint (the upper-cased first letter, the word count) and the word count of
  \<^verbatim>\<open>round-start\<close> are left out.
\<close>

datatype message =
    ErrorMsg string
  | RoomJoinedHost string room_settings nat "playerInfo list"
  | RoomJoinedPlayer string string room_state room_settings "playerInfo list"
  | PlayerUpdate "playerInfo list" string
  | GameStarted int int nat
  | RoundStart int int string int int nat
  | RoundStartLate int int string int int "hint list"
  | HintMsg hint
  | GuessResultAlready
  | GuessResultCorrect int int int int int matchType int
  | GuessResultWrong string
  | LeaderboardUpdate "playerInfo list" nat nat
  | RoundEnd int int string string "playerInfo list" nat nat
  | GameOver "playerInfo list" "playerInfo option" int
  | HostDisconnected

type_synonym emitted = "(target \<times> message) list"

text \<open>An uncaught \<^verbatim>\<open>TypeError\<close>: reading a property of \<^verbatim>\<open>undefined\<close>.\<close>

datatype failure = TypeError

definition getPlayerList :: "room \<Rightarrow> playerInfo list" where
  "getPlayerList room =
     sort_key (\<lambda>p. - pi_score p)
       (map (\<lambda>(k, p). \<lparr>pi_id = player_id p, pi_name = player_name p, pi_score = score p,
                        pi_streak = streak p,
                        pi_correctAnswers = length (filter ans_correct (answers p))\<rparr>)
            (players room))"

text \<open>\<^verbatim>\<open>room.images[room.currentRound - 1]\<close>: \<^verbatim>\<open>undefined\<close> outside the array.\<close>

definition currentImage :: "room \<Rightarrow> image option" where
  "currentImage room =
     (let k = currentRound room - 1
      in if 0 \<le> k \<and> k < int (length (images room)) then Some (images room ! nat k) else None)"

text \<open>\<^verbatim>\<open>room.roundStartTime\<close> in a subtraction: \<^verbatim>\<open>null\<close> counts as 0.\<close>

definition startTimeOf :: "room \<Rightarrow> int" where
  "startTimeOf room = (case roundStartTime room of None \<Rightarrow> 0 | Some t \<Rightarrow> t)"

definition getHint :: "int \<Rightarrow> int \<Rightarrow> hint list" where
  "getHint elapsed totalTime =
     (if dbl (of_int totalTime * (1 / 2)) \<le> of_int elapsed then [FirstLetterHint] else []) @
     (if dbl (of_int totalTime * (3 / 4)) \<le> of_int elapsed then [WordCountHint] else [])"

subsection \<open>The REST endpoints that change a room\<close>

text \<open>The identifiers come from \<^verbatim>\<open>uuidv4\<close> and the creation time from \<^verbatim>\<open>Date.now()\<close>.\<close>

definition newRoom :: "string \<Rightarrow> string \<Rightarrow> int \<Rightarrow> room" where
  "newRoom roomId hId now =
     \<lparr>room_id = roomId, hostId = hId, hostSocketId = None, images = [], players = [],
      settings = \<lparr>roundTime = 30, totalRounds = 5\<rparr>, state = Setup, currentRound = 0,
      roundStartTime = None, roundTimer = None, roundAnswered = {||}, createdAt = now\<rparr>"

text \<open>\<^verbatim>\<open>rooms.set(roomId, {...})\<close> with a new object.\<close>

definition createRoom :: "string \<Rightarrow> string \<Rightarrow> int \<Rightarrow> server \<Rightarrow> server" where
  "createRoom roomId hId now srv =
     srv\<lparr>heap := heap srv @ [newRoom roomId hId now],
         rooms := AList.update roomId (length (heap srv)) (rooms srv)\<rparr>"

text \<open>
  The cleanup interval, which runs every minute: each room older than 3 hours is deleted from
  the registry, after its \<^verbatim>\<open>roundTimer\<close> is cleared. It is the only code that deletes from
  the registry; the room object stays with the callbacks that hold it.
\<close>

definition evict :: "int \<Rightarrow> server \<Rightarrow> server" where
  "evict now srv =
     fold (\<lambda>(roomId, a) s.
            (case roomAt s a of
               None \<Rightarrow> s
             | Some room \<Rightarrow>
                 if 3 * 60 * 60 * 1000 < now - createdAt room
                 then let s1 = (case roundTimer room of None \<Rightarrow> s | Some h \<Rightarrow> clearTimer h s)
                      in s1\<lparr>rooms := AList.delete roomId (rooms s1)\<rparr>
                 else s))
          (rooms srv) srv"

text \<open>\<^verbatim>\<open>POST /api/upload/:roomId\<close>: the files as (name, data URL), \<^verbatim>\<open>answers[i] || 'Unknown'\<close>.
  The middleware \<^verbatim>\<open>upload.array('images', 20)\<close> refuses a request with more than 20 files
  before the handler runs.\<close>

definition upload :: "string \<Rightarrow> (string \<times> string) list \<Rightarrow> string list \<Rightarrow> server \<Rightarrow> server" where
  "upload roomId files answerTexts srv =
     (case getRoom srv roomId of
        None \<Rightarrow> srv
      | Some (a, room) \<Rightarrow>
          if 20 < length files then srv
          else putRoom a (room\<lparr>images := images room @
            map (\<lambda>(i, nm, dat). \<lparr>img_data = dat, img_name = nm,
                   img_answer = (if i < length answerTexts \<and> answerTexts ! i \<noteq> [] then answerTexts ! i
                                 else ''Unknown'')\<rparr>)
                (enumerate 0 files)\<rparr>) srv)"

text \<open>
  \<^verbatim>\<open>POST /api/settings/:roomId\<close>. A field of the body is absent or an integer; 0 is falsy
  and \<^verbatim>\<open>parseInt\<close> of an integer is that integer.
\<close>

definition settings_post :: "string \<Rightarrow> int option \<Rightarrow> int option \<Rightarrow> server \<Rightarrow> server" where
  "settings_post roomId rt tr srv =
     (case getRoom srv roomId of
        None \<Rightarrow> srv
      | Some (a, room) \<Rightarrow>
          let s1 = (case rt of None \<Rightarrow> settings room
                    | Some n \<Rightarrow> if n \<noteq> 0 then (settings room)\<lparr>roundTime := n\<rparr> else settings room);
              s2 = (case tr of None \<Rightarrow> s1
                    | Some n \<Rightarrow> if n \<noteq> 0 then s1\<lparr>totalRounds := n\<rparr> else s1)
          in putRoom a (room\<lparr>settings := s2\<rparr>) srv)"

text \<open>\<^verbatim>\<open>DELETE /api/image/:roomId/:index\<close>.\<close>

definition delete_image :: "string \<Rightarrow> int \<Rightarrow> server \<Rightarrow> server" where
  "delete_image roomId index srv =
     (case getRoom srv roomId of
        None \<Rightarrow> srv
      | Some (a, room) \<Rightarrow>
          if 0 \<le> index \<and> index < int (length (images room))
          then putRoom a
                 (room\<lparr>images := take (nat index) (images room) @ drop (Suc (nat index)) (images room)\<rparr>)
                 srv
          else srv)"

subsection \<open>The socket handlers\<close>

text \<open>
  Each handler takes the identifier of the socket that sent the event and the payload, and
  returns the server and what it emitted. \<^verbatim>\<open>Date.now()\<close> is the argument \<open>now\<close>.
\<close>

definition host_join :: "string \<Rightarrow> string \<Rightarrow> string \<Rightarrow> server \<Rightarrow> server \<times> emitted" where
  "host_join sid roomId hId srv =
     (case getRoom srv roomId of
        None \<Rightarrow> (srv, [(ToSocket sid, ErrorMsg ''Invalid room or host ID'')])
      | Some (a, room) \<Rightarrow>
          if hostId room \<noteq> hId
          then (srv, [(ToSocket sid, ErrorMsg ''Invalid room or host ID'')])
          else let room1 = room\<lparr>hostSocketId := Some sid, state := Lobby\<rparr>
               in (putSocket sid \<lparr>sock_roomId = Some roomId, isHost = True\<rparr>
                     (putRoom a room1 srv),
                   [(ToSocket sid, RoomJoinedHost roomId (settings room1) (length (images room1))
                                     (getPlayerList room1))]))"

definition player_join ::
  "string \<Rightarrow> string \<Rightarrow> string \<Rightarrow> int \<Rightarrow> server \<Rightarrow> failure + server \<times> emitted" where
  "player_join sid roomId playerName now srv =
     (case getRoom srv roomId of
        None \<Rightarrow> Inr (srv, [(ToSocket sid, ErrorMsg ''Room not found'')])
      | Some (a, room) \<Rightarrow>
          if state room = Finished
          then Inr (srv, [(ToSocket sid, ErrorMsg ''This game has already ended'')])
          else if state room = Setup
          then Inr (srv, [(ToSocket sid, ErrorMsg
                 ''Room is still being set up. Wait for the host to share the link.'')])
          else
            let player = \<lparr>player_id = sid, player_name = take 20 (trim playerName), score = 0,
                          answers = [], streak = 0\<rparr>;
                room1 = room\<lparr>players := AList.update sid player (players room)\<rparr>;
                srv1 = putSocket sid \<lparr>sock_roomId = Some roomId, isHost = False\<rparr>
                         (putRoom a room1 srv);
                out = [(ToSocket sid, RoomJoinedPlayer roomId (player_name player) (state room1)
                                        (settings room1) (getPlayerList room1)),
                       (ToRoom roomId, PlayerUpdate (getPlayerList room1)
                                        (player_name player @ '' joined the game!''))]
            in if state room1 = Playing
               then (case currentImage room1 of
                       None \<Rightarrow> Inl TypeError
                     | Some img \<Rightarrow>
                         let elapsed = now - startTimeOf room1;
                             totalTime = roundTime (settings room1) * 1000;
                             remaining = max 0 (totalTime - elapsed)
                         in Inr (srv1, out @
                              [(ToSocket sid, RoundStartLate (currentRound room1)
                                  (totalRounds (settings room1)) (img_data img) remaining totalTime
                                  (getHint elapsed totalTime))]))
               else Inr (srv1, out))"

definition socketIsHost :: "server \<Rightarrow> string \<Rightarrow> bool" where
  "socketIsHost srv sid = (case getSocket srv sid of None \<Rightarrow> False | Some socket \<Rightarrow> isHost socket)"

definition start_game :: "string \<Rightarrow> string \<Rightarrow> server \<Rightarrow> server \<times> emitted" where
  "start_game sid roomId srv =
     (case getRoom srv roomId of
        None \<Rightarrow> (srv, [])
      | Some (a, room) \<Rightarrow>
          if \<not> socketIsHost srv sid then (srv, [])
          else if length (images room) = 0
          then (srv, [(ToSocket sid, ErrorMsg ''No images uploaded! Add some images first.'')])
          else
            let room1 = room\<lparr>settings := (settings room)\<lparr>totalRounds :=
                               min (totalRounds (settings room)) (int (length (images room)))\<rparr>,
                             currentRound := 0, state := Playing,
                             players := map (\<lambda>(k, p). (k, p\<lparr>score := 0, answers := [], streak := 0\<rparr>))
                                          (players room)\<rparr>;
                (h, srv1) = setTimer (StartRoundCb a) 2000 (putRoom a room1 srv)
            in (srv1, [(ToRoom roomId, GameStarted (totalRounds (settings room1))
                          (roundTime (settings room1)) (length (players room1)))]))"

text \<open>
  \<^verbatim>\<open>submit-guess\<close>. The time ratio divides by \<^verbatim>\<open>roundTime * 1000\<close>; a round time of 0, which
  \<open>createRoom\<close> and \<open>settings_post\<close> never store, would give \<^verbatim>\<open>NaN\<close> or \<^verbatim>\<open>Infinity\<close> and is
  outside the model.
\<close>

definition submit_guess ::
  "string \<Rightarrow> string \<Rightarrow> string \<Rightarrow> int \<Rightarrow> server \<Rightarrow> failure + server \<times> emitted" where
  "submit_guess sid roomId guess now srv =
     (case getRoom srv roomId of
        None \<Rightarrow> Inr (srv, [])
      | Some (a, room) \<Rightarrow>
          if state room \<noteq> Playing then Inr (srv, [])
          else (case map_of (players room) sid of
            None \<Rightarrow> Inr (srv, [])
          | Some player \<Rightarrow>
              if sid |\<in>| roundAnswered room then Inr (srv, [(ToSocket sid, GuessResultAlready)])
              else (case currentImage room of
                None \<Rightarrow> Inl TypeError
              | Some img \<Rightarrow>
                  let matchQuality = checkAnswer guess (img_answer img);
                      elapsed = now - startTimeOf room;
                      totalTime = roundTime (settings room) * 1000
                  in if 0 < matchQuality then
                       let timeRatio = dbl (of_int elapsed / of_int totalTime);
                           basePoints = max 100 (min 1000
                                          (Math_round (dbl (1000 - dbl (timeRatio * 900)))));
                           points0 = Math_round (dbl (of_int basePoints * matchQuality));
                           mType = (if matchQuality < 1 \<and> dbl (7 / 10) \<le> matchQuality then Close
                                    else if matchQuality < dbl (7 / 10) then Partial else Exact);
                           streak1 = (if dbl (7 / 10) \<le> matchQuality then streak player + 1
                                      else streak player);
                           points1 = (if dbl (7 / 10) \<le> matchQuality
                                      then (if 3 \<le> streak1 then points0 + 200
                                            else if 2 \<le> streak1 then points0 + 100 else points0)
                                      else points0);
                           position = int (fcard (roundAnswered room)) + 1;
                           points = (if dbl (7 / 10) \<le> matchQuality
                                     then (if position = 1 then points1 + 300
                                           else if position = 2 then points1 + 150
                                           else if position = 3 then points1 + 50 else points1)
                                     else points1);
                           player1 = player\<lparr>score := score player + points,
                                       answers := answers player @
                                         [\<lparr>ans_round = currentRound room, ans_correct = True,
                                           ans_points = points, ans_time = Some elapsed,
                                           ans_matchQuality = Some matchQuality\<rparr>],
                                       streak := streak1\<rparr>;
                           room1 = room\<lparr>players := AList.update sid player1 (players room),
                                        roundAnswered := finsert sid (roundAnswered room)\<rparr>
                       in Inr (putRoom a room1 srv,
                               [(ToSocket sid, GuessResultCorrect points (score player1) position
                                   (streak player1) elapsed mType
                                   (Math_round (dbl (matchQuality * 100)))),
                                (ToRoom roomId, LeaderboardUpdate (getPlayerList room1)
                                   (fcard (roundAnswered room1)) (length (players room1)))])
                     else Inr (srv, [(ToSocket sid, GuessResultWrong guess)]))))"

definition disconnect :: "string \<Rightarrow> server \<Rightarrow> server \<times> emitted" where
  "disconnect sid srv =
     (case getSocket srv sid of
        None \<Rightarrow> (srv, [])
      | Some socket \<Rightarrow>
          let srv0 = srv\<lparr>sockets := AList.delete sid (sockets srv)\<rparr>
          in (case sock_roomId socket of
                None \<Rightarrow> (srv0, [])
              | Some roomId \<Rightarrow>
                  (case getRoom srv roomId of
                     None \<Rightarrow> (srv0, [])
                   | Some (a, room) \<Rightarrow>
                       if isHost socket then (srv0, [(ToRoom roomId, HostDisconnected)])
                       else
                         let room1 = room\<lparr>players := AList.delete sid (players room)\<rparr>
                         in (putRoom a room1 srv0,
                             (case map_of (players room) sid of
                                None \<Rightarrow> []
                              | Some player \<Rightarrow>
                                  [(ToRoom roomId, PlayerUpdate (getPlayerList room1)
                                      (player_name player @ '' left the game''))])))))"

subsection \<open>The game logic run by the timers\<close>

text \<open>\<open>startRound\<close>, \<open>endRound\<close> and \<open>endGame\<close> take the room object, here its address.\<close>

definition endGame :: "nat \<Rightarrow> room \<Rightarrow> server \<Rightarrow> server \<times> emitted" where
  "endGame a room srv =
     (let room1 = room\<lparr>state := Finished\<rparr>;
          srv1 = (case roundTimer room1 of None \<Rightarrow> srv | Some h \<Rightarrow> clearTimer h srv);
          ranked = sort_key (\<lambda>p. - pi_score p) (getPlayerList room1)
      in (putRoom a room1 srv1,
          [(ToRoom (room_id room1),
            GameOver ranked (case ranked of [] \<Rightarrow> None | p # ps \<Rightarrow> Some p)
              (totalRounds (settings room1)))]))"

definition startRound :: "nat \<Rightarrow> int \<Rightarrow> server \<Rightarrow> failure + server \<times> emitted" where
  "startRound a now srv =
     (case roomAt srv a of
        None \<Rightarrow> Inr (srv, [])
      | Some room \<Rightarrow>
          let room1 = room\<lparr>currentRound := currentRound room + 1\<rparr>
          in if totalRounds (settings room1) < currentRound room1
             then Inr (endGame a room1 srv)
             else
               let room2 = room1\<lparr>state := Playing, roundStartTime := Some now,
                                 roundAnswered := {||}\<rparr>
               in (case currentImage room2 of
                     None \<Rightarrow> Inl TypeError
                   | Some img \<Rightarrow>
                       let (hintH, srv1) = setTimer (HintCb a img False False) 1000 srv;
                           (endH, srv2) = setTimer (EndRoundCb a hintH)
                                            (roundTime (settings room2) * 1000) srv1;
                           room3 = room2\<lparr>roundTimer := Some endH\<rparr>
                       in Inr (putRoom a room3 srv2,
                               [(ToRoom (room_id room3),
                                 RoundStart (currentRound room3) (totalRounds (settings room3))
                                   (img_data img) (roundTime (settings room3) * 1000)
                                   (roundTime (settings room3) * 1000)
                                   (length (img_answer img)))])))"

definition endRound :: "nat \<Rightarrow> server \<Rightarrow> failure + server \<times> emitted" where
  "endRound a srv =
     (case roomAt srv a of
        None \<Rightarrow> Inr (srv, [])
      | Some room \<Rightarrow>
          let room1 = room\<lparr>state := RoundResult,
                players := map (\<lambda>(socketId, player).
                    if socketId |\<in>| roundAnswered room then (socketId, player)
                    else (socketId, player\<lparr>streak := 0,
                            answers := answers player @
                              [\<lparr>ans_round = currentRound room, ans_correct = False,
                                ans_points = 0, ans_time = None, ans_matchQuality = None\<rparr>]\<rparr>))
                  (players room)\<rparr>
          in (case currentImage room1 of
                None \<Rightarrow> Inl TypeError
              | Some img \<Rightarrow>
                  let (h, srv1) = setTimer (StartRoundCb a) 5000 srv;
                      room2 = room1\<lparr>roundTimer := Some h\<rparr>
                  in Inr (putRoom a room2 srv1,
                          [(ToRoom (room_id room2),
                            RoundEnd (currentRound room2) (totalRounds (settings room2))
                              (img_answer img) (img_data img) (getPlayerList room2)
                              (fcard (roundAnswered room2)) (length (players room2)))])))"

text \<open>One tick of the hint interval \<open>h\<close> of a round.\<close>

definition hintTick ::
  "nat \<Rightarrow> nat \<Rightarrow> image \<Rightarrow> bool \<Rightarrow> bool \<Rightarrow> int \<Rightarrow> int \<Rightarrow> server \<Rightarrow> server \<times> emitted" where
  "hintTick h a img firstLetter wordCount ms now srv =
     (case roomAt srv a of
        None \<Rightarrow> (srv, [])
      | Some room \<Rightarrow>
          if state room \<noteq> Playing then (clearTimer h srv, [])
          else
            let elapsed = now - startTimeOf room;
                totalTime = roundTime (settings room) * 1000;
                first = (dbl (of_int totalTime * (1 / 2)) \<le> of_int elapsed \<and> \<not> firstLetter);
                second = (dbl (of_int totalTime * (3 / 4)) \<le> of_int elapsed \<and> \<not> wordCount);
                out = (if first then [(ToRoom (room_id room), HintMsg FirstLetterHint)] else []) @
                      (if second then [(ToRoom (room_id room), HintMsg WordCountHint)] else [])
            in if second then (clearTimer h srv, out)
               else (srv\<lparr>timers := AList.update h
                           (HintCb a img (firstLetter \<or> first) wordCount, ms) (timers srv)\<rparr>,
                     out))"

text \<open>The event loop runs the callback of a pending timer; a timeout is spent by that,
  an interval stays.\<close>

definition fire :: "nat \<Rightarrow> int \<Rightarrow> server \<Rightarrow> failure + server \<times> emitted" where
  "fire h now srv =
     (case map_of (timers srv) h of
        None \<Rightarrow> Inr (srv, [])
      | Some (cb, ms) \<Rightarrow>
          (case cb of
             StartRoundCb a \<Rightarrow> startRound a now (clearTimer h srv)
           | EndRoundCb a hintH \<Rightarrow> endRound a (clearTimer hintH (clearTimer h srv))
           | HintCb a img firstLetter wordCount \<Rightarrow>
               Inr (hintTick h a img firstLetter wordCount ms now srv)))"

subsection \<open>The server as a transition system\<close>

datatype input =
    CreateRoom string string int
  | Upload string "(string \<times> string) list" "string list"
  | SettingsPost string "int option" "int option"
  | DeleteImage string int
  | Connect string
  | HostJoin string string string
  | PlayerJoin string string string int
  | StartGame string string
  | SubmitGuess string string string int
  | Disconnect string
  | Fire nat int
  | Cleanup int

text \<open>An event of a socket is handled only while the socket is connected.\<close>

definition isConnected :: "server \<Rightarrow> string \<Rightarrow> bool" where
  "isConnected srv sid = (getSocket srv sid \<noteq> None)"

fun step :: "input \<Rightarrow> server \<Rightarrow> failure + server \<times> emitted" where
  "step (CreateRoom roomId hId now) srv = Inr (createRoom roomId hId now srv, [])"
| "step (Upload roomId files answerTexts) srv = Inr (upload roomId files answerTexts srv, [])"
| "step (SettingsPost roomId rt tr) srv = Inr (settings_post roomId rt tr srv, [])"
| "step (DeleteImage roomId index) srv = Inr (delete_image roomId index srv, [])"
| "step (Connect sid) srv =
     Inr (if isConnected srv sid then srv
          else putSocket sid \<lparr>sock_roomId = None, isHost = False\<rparr> srv, [])"
| "step (HostJoin sid roomId hId) srv =
     (if isConnected srv sid then Inr (host_join sid roomId hId srv) else Inr (srv, []))"
| "step (PlayerJoin sid roomId playerName now) srv =
     (if isConnected srv sid then player_join sid roomId playerName now srv else Inr (srv, []))"
| "step (StartGame sid roomId) srv =
     (if isConnected srv sid then Inr (start_game sid roomId srv) else Inr (srv, []))"
| "step (SubmitGuess sid roomId guess now) srv =
     (if isConnected srv sid then submit_guess sid roomId guess now srv else Inr (srv, []))"
| "step (Disconnect sid) srv = Inr (disconnect sid srv)"
| "step (Fire h now) srv = fire h now srv"
| "step (Cleanup now) srv = Inr (evict now srv, [])"

text \<open>A run stops at the first uncaught exception.\<close>

fun run :: "input list \<Rightarrow> server \<Rightarrow> failure + server \<times> emitted" where
  "run [] srv = Inr (srv, [])"
| "run (i # inputs) srv =
     (case step i srv of
        Inl e \<Rightarrow> Inl e
      | Inr (srv1, out1) \<Rightarrow>
          (case run inputs srv1 of
             Inl e \<Rightarrow> Inl e
           | Inr (srv2, out2) \<Rightarrow> Inr (srv2, out1 @ out2)))"

definition server0 :: server where
  "server0 = \<lparr>heap = [], rooms = [], sockets = [], timers = [], nextTimer = 0\<rparr>"

subsection \<open>The scoring policy of the specification\<close>

text \<open>
  Written from section 4.2: \<open>score(quality, elapsedMs, totalMs, priorStreak,
  answeredCountBeforeThis)\<close> gives the points and the new streak.
\<close>

definition spec_base :: "int \<Rightarrow> int \<Rightarrow> int" where
  "spec_base elapsedMs totalMs =
     max 100 (min 1000
       (Math_round (dbl (1000 - dbl (dbl (of_int elapsedMs / of_int totalMs) * 900)))))"

definition spec_streakBonus :: "int \<Rightarrow> int" where
  "spec_streakBonus newStreak = (if 3 \<le> newStreak then 200 else if 2 \<le> newStreak then 100 else 0)"

definition spec_positionBonus :: "nat \<Rightarrow> int" where
  "spec_positionBonus rank =
     (if rank = 1 then 300 else if rank = 2 then 150 else if rank = 3 then 50 else 0)"

definition spec_score :: "number \<Rightarrow> int \<Rightarrow> int \<Rightarrow> int \<Rightarrow> nat \<Rightarrow> int \<times> int" where
  "spec_score quality elapsedMs totalMs priorStreak answeredCountBeforeThis =
     (let base = spec_base elapsedMs totalMs;
          newStreak = (if dbl (7 / 10) \<le> quality then priorStreak + 1 else priorStreak);
          bonus = (if dbl (7 / 10) \<le> quality
                   then spec_streakBonus newStreak
                        + spec_positionBonus (answeredCountBeforeThis + 1)
                   else 0)
      in (Math_round (dbl (of_int base * quality)) + bonus, newStreak))"

text \<open>The player after a scored guess, as section 4.5 has it: the scoring policy is
  applied and the score, the streak and the history are updated.\<close>

definition scoredPlayer :: "room \<Rightarrow> player \<Rightarrow> number \<Rightarrow> int \<Rightarrow> player" where
  "scoredPlayer room player quality elapsedMs =
     (let (points, newStreak) =
            spec_score quality elapsedMs (roundTime (settings room) * 1000) (streak player)
              (fcard (roundAnswered room))
      in player\<lparr>score := score player + points,
                answers := answers player @
                  [\<lparr>ans_round = currentRound room, ans_correct = True, ans_points = points,
                    ans_time = Some elapsedMs, ans_matchQuality = Some quality\<rparr>],
                streak := newStreak\<rparr>)"

text \<open>The history entry of a round that closed without an answer of the player.\<close>

definition missedEntry :: "int \<Rightarrow> answerEntry" where
  "missedEntry r =
     \<lparr>ans_round = r, ans_correct = False, ans_points = 0, ans_time = None,
      ans_matchQuality = None\<rparr>"

text \<open>The history of a player as (round, correct, points).\<close>

definition historyOf :: "player \<Rightarrow> (int \<times> bool \<times> int) list" where
  "historyOf p = map (\<lambda>e. (ans_round e, ans_correct e, ans_points e)) (answers p)"

subsection \<open>Reading the result of a run\<close>

definition succeeded :: "failure + server \<times> emitted \<Rightarrow> bool" where
  "succeeded res = (case res of Inl e \<Rightarrow> False | Inr x \<Rightarrow> True)"

definition finalServer :: "failure + server \<times> emitted \<Rightarrow> server option" where
  "finalServer res = (case res of Inl e \<Rightarrow> None | Inr (srv, out) \<Rightarrow> Some srv)"

definition serverOf :: "failure + server \<times> emitted \<Rightarrow> server" where
  "serverOf res = (case res of Inl e \<Rightarrow> server0 | Inr (srv, out) \<Rightarrow> srv)"

definition emittedOf :: "failure + server \<times> emitted \<Rightarrow> emitted" where
  "emittedOf res = (case res of Inl e \<Rightarrow> [] | Inr (srv, out) \<Rightarrow> out)"

definition roomOf :: "failure + server \<times> emitted \<Rightarrow> string \<Rightarrow> room option" where
  "roomOf res roomId = map_option snd (getRoom (serverOf res) roomId)"


definition isGameOver :: "target \<times> message \<Rightarrow> bool" where
  "isGameOver e = (case snd e of GameOver ranked winner n \<Rightarrow> True | _ \<Rightarrow> False)"

text \<open>The standing of a registered room after a run: its state and, for every player,
  the streak and the history. And the sizes of \<^verbatim>\<open>roundAnswered\<close> and of \<^verbatim>\<open>players\<close>.\<close>

definition standing ::
  "failure + server \<times> emitted \<Rightarrow> string
   \<Rightarrow> (room_state \<times> (string \<times> int \<times> (int \<times> bool \<times> int) list) list) option" where
  "standing res roomId =
     (case roomOf res roomId of
        None \<Rightarrow> None
      | Some room \<Rightarrow>
          Some (state room, map (\<lambda>(sid, p). (sid, streak p, historyOf p)) (players room)))"

definition counts :: "failure + server \<times> emitted \<Rightarrow> string \<Rightarrow> (nat \<times> nat) option" where
  "counts res roomId =
     (case roomOf res roomId of
        None \<Rightarrow> None
      | Some room \<Rightarrow> Some (fcard (roundAnswered room), length (players room)))"

text \<open>The number of history entries of a player for round \<open>r\<close>.\<close>

definition entriesFor :: "int \<Rightarrow> player \<Rightarrow> nat" where
  "entriesFor r p = length (filter (\<lambda>e. ans_round e = r) (answers p))"

subsection \<open>Sample games\<close>

text \<open>
  A room with one image, its host and the player \<open>p1\<close>; the game is started, the timer of
  \<^verbatim>\<open>start-game\<close> (handle 0) opens round 1, which sets the hint interval (handle 1) and the
  end-of-round timer (handle 2). Then either \<open>p1\<close> answers (\<open>scoredTrace\<close>), or the round
  is closed, which sets the 5-second timer (handle 3), and that timer ends the game.
\<close>

definition lobbyTrace :: "input list" where
  "lobbyTrace =
     [CreateRoom ''r'' ''h'' 0, Upload ''r'' [(''a.png'', ''img1'')] [''Eiffel Tower''],
      Connect ''hs'', HostJoin ''hs'' ''r'' ''h'', Connect ''p1'', PlayerJoin ''p1'' ''r'' ''Ann'' 5]"

definition playTrace :: "input list" where
  "playTrace = lobbyTrace @ [StartGame ''hs'' ''r'', Fire 0 2000]"

definition scoredTrace :: "input list" where
  "scoredTrace = playTrace @ [SubmitGuess ''p1'' ''r'' ''Eiffel Tower'' 2000]"

definition closedTrace :: "input list" where
  "closedTrace = playTrace @ [Fire 2 32000]"

definition finishedTrace :: "input list" where
  "finishedTrace = closedTrace @ [Fire 3 37000]"

text \<open>
  A game of two rounds with the players \<open>p1\<close> and \<open>p2\<close>; \<open>p1\<close> answers round 1 exactly and
  round 2 is opened (\<open>roundTwoTrace\<close>). Then \<open>p1\<close> guesses "ben" for "Big Ben" (quality 0.4),
  \<open>p2\<close> does not answer and the round is closed (\<open>twoRoundTrace\<close>).
\<close>

definition roundTwoTrace :: "input list" where
  "roundTwoTrace =
     [CreateRoom ''r'' ''h'' 0,
      Upload ''r'' [(''a.png'', ''img1''), (''b.png'', ''img2'')] [''Paris'', ''Big Ben''],
      SettingsPost ''r'' None (Some 2),
      Connect ''hs'', HostJoin ''hs'' ''r'' ''h'',
      Connect ''p1'', PlayerJoin ''p1'' ''r'' ''Ann'' 5,
      Connect ''p2'', PlayerJoin ''p2'' ''r'' ''Bob'' 6,
      StartGame ''hs'' ''r'', Fire 0 2000,
      SubmitGuess ''p1'' ''r'' ''paris'' 3000,
      Fire 2 32000, Fire 3 37000]"

definition twoRoundTrace :: "input list" where
  "twoRoundTrace = roundTwoTrace @ [SubmitGuess ''p1'' ''r'' ''ben'' 40000, Fire 5 67000]"

subsection \<open>The states of the sample games\<close>

text \<open>The servers that the sample games reach, written out: after \<open>lobbyTrace\<close>,
  \<open>playTrace\<close>, \<open>scoredTrace\<close>, \<open>closedTrace\<close>, \<open>finishedTrace\<close> and \<open>roundTwoTrace\<close>.\<close>

definition eiffelTower :: image where
  "eiffelTower = \<lparr>img_data = ''img1'', img_name = ''a.png'', img_answer = ''Eiffel Tower''\<rparr>"

definition ann :: player where
  "ann = \<lparr>player_id = ''p1'', player_name = ''Ann'', score = 0, answers = [], streak = 0\<rparr>"

definition lobbyRoom :: room where
  "lobbyRoom =
     \<lparr>room_id = ''r'', hostId = ''h'', hostSocketId = Some ''hs'', images = [eiffelTower],
      players = [(''p1'', ann)], settings = \<lparr>roundTime = 30, totalRounds = 5\<rparr>, state = Lobby,
      currentRound = 0, roundStartTime = None, roundTimer = None, roundAnswered = {||},
      createdAt = 0\<rparr>"

definition lobbyServer :: server where
  "lobbyServer =
     \<lparr>heap = [lobbyRoom], rooms = [(''r'', 0)],
      sockets = [(''hs'', \<lparr>sock_roomId = Some ''r'', isHost = True\<rparr>),
                 (''p1'', \<lparr>sock_roomId = Some ''r'', isHost = False\<rparr>)],
      timers = [], nextTimer = 0\<rparr>"

definition playRoom :: room where
  "playRoom =
     lobbyRoom\<lparr>settings := \<lparr>roundTime = 30, totalRounds = 1\<rparr>, state := Playing,
                currentRound := 1, roundStartTime := Some 2000, roundTimer := Some 2\<rparr>"

definition playServer :: server where
  "playServer =
     lobbyServer\<lparr>heap := [playRoom],
                  timers := [(1, HintCb 0 eiffelTower False False, 1000),
                             (2, EndRoundCb 0 1, 30000)],
                  nextTimer := 3\<rparr>"

definition scoredRoom :: room where
  "scoredRoom =
     playRoom\<lparr>players :=
                 [(''p1'', ann\<lparr>score := 1300,
                               answers := [\<lparr>ans_round = 1, ans_correct = True, ans_points = 1300,
                                            ans_time = Some 0, ans_matchQuality = Some 1\<rparr>],
                               streak := 1\<rparr>)],
               roundAnswered := {|''p1''|}\<rparr>"

definition scoredServer :: server where
  "scoredServer = playServer\<lparr>heap := [scoredRoom]\<rparr>"

definition closedRoom :: room where
  "closedRoom =
     playRoom\<lparr>players := [(''p1'', ann\<lparr>answers := [missedEntry 1]\<rparr>)], state := RoundResult,
               roundTimer := Some 3\<rparr>"

definition closedServer :: server where
  "closedServer =
     lobbyServer\<lparr>heap := [closedRoom], timers := [(3, StartRoundCb 0, 5000)],
                  nextTimer := 4\<rparr>"

definition finishedRoom :: room where
  "finishedRoom = closedRoom\<lparr>state := Finished, currentRound := 2\<rparr>"

definition finishedServer :: server where
  "finishedServer = lobbyServer\<lparr>heap := [finishedRoom], nextTimer := 4\<rparr>"

definition bigBen :: image where
  "bigBen = \<lparr>img_data = ''img2'', img_name = ''b.png'', img_answer = ''Big Ben''\<rparr>"

definition roundTwoRoom :: room where
  "roundTwoRoom =
     \<lparr>room_id = ''r'', hostId = ''h'', hostSocketId = Some ''hs'',
      images = [\<lparr>img_data = ''img1'', img_name = ''a.png'', img_answer = ''Paris''\<rparr>, bigBen],
      players =
        [(''p1'', ann\<lparr>score := 1270,
                      answers := [\<lparr>ans_round = 1, ans_correct = True, ans_points = 1270,
                                   ans_time = Some 1000, ans_matchQuality = Some 1\<rparr>],
                      streak := 1\<rparr>),
         (''p2'', \<lparr>player_id = ''p2'', player_name = ''Bob'', score = 0,
                   answers = [missedEntry 1], streak = 0\<rparr>)],
      settings = \<lparr>roundTime = 30, totalRounds = 2\<rparr>, state = Playing, currentRound = 2,
      roundStartTime = Some 37000, roundTimer = Some 5, roundAnswered = {||}, createdAt = 0\<rparr>"

definition roundTwoServer :: server where
  "roundTwoServer =
     \<lparr>heap = [roundTwoRoom], rooms = [(''r'', 0)],
      sockets = [(''hs'', \<lparr>sock_roomId = Some ''r'', isHost = True\<rparr>),
                 (''p1'', \<lparr>sock_roomId = Some ''r'', isHost = False\<rparr>),
                 (''p2'', \<lparr>sock_roomId = Some ''r'', isHost = False\<rparr>)],
      timers = [(4, HintCb 0 bigBen False False, 1000), (5, EndRoundCb 0 4, 30000)],
      nextTimer = 6\<rparr>"

subsection \<open>The effect of an input on one room\<close>

text \<open>
  What the handling of one input can do to the room object at the address \<open>a\<close>, read off
  the handlers: the object before, the object after. The server is the one before the
  input.
\<close>

inductive roomEffect :: "server \<Rightarrow> nat \<Rightarrow> input \<Rightarrow> room \<Rightarrow> room \<Rightarrow> bool"
  for srv :: server and a :: nat where
  untouched: "roomEffect srv a i room room"
| uploaded: "roomEffect srv a (Upload roomId files answerTexts) room (room\<lparr>images := imgs\<rparr>)"
| image_deleted: "roomEffect srv a (DeleteImage roomId index) room (room\<lparr>images := imgs\<rparr>)"
| settings_posted:
    "roomEffect srv a (SettingsPost roomId rt tr) room
       (room\<lparr>settings := (settings room)
          \<lparr>roundTime := (case rt of None \<Rightarrow> roundTime (settings room)
                          | Some n \<Rightarrow> if n \<noteq> 0 then n else roundTime (settings room)),
           totalRounds := (case tr of None \<Rightarrow> totalRounds (settings room)
                           | Some n \<Rightarrow> if n \<noteq> 0 then n else totalRounds (settings room))\<rparr>\<rparr>)"
| host_joined:
    "hostId room = hId \<Longrightarrow>
     roomEffect srv a (HostJoin sid roomId hId) room (room\<lparr>hostSocketId := Some sid, state := Lobby\<rparr>)"
| player_joined:
    "state room \<noteq> Finished \<Longrightarrow> state room \<noteq> Setup \<Longrightarrow>
     roomEffect srv a (PlayerJoin sid roomId playerName now) room
       (room\<lparr>players := AList.update sid
                 \<lparr>player_id = sid, player_name = take 20 (trim playerName), score = 0,
                  answers = [], streak = 0\<rparr> (players room)\<rparr>)"
| game_started:
    "map_of (rooms srv) roomId = Some a \<Longrightarrow> socketIsHost srv sid \<Longrightarrow> images room \<noteq> [] \<Longrightarrow>
     roomEffect srv a (StartGame sid roomId) room
       (room\<lparr>settings := (settings room)\<lparr>totalRounds :=
                   min (totalRounds (settings room)) (int (length (images room)))\<rparr>,
             currentRound := 0, state := Playing,
             players := map (\<lambda>(k, p). (k, p\<lparr>score := 0, answers := [], streak := 0\<rparr>))
                          (players room)\<rparr>)"
| guess_scored:
    "state room = Playing \<Longrightarrow> map_of (players room) sid = Some player \<Longrightarrow>
     sid |\<notin>| roundAnswered room \<Longrightarrow> currentImage room = Some img \<Longrightarrow>
     0 < checkAnswer guess (img_answer img) \<Longrightarrow>
     roomEffect srv a (SubmitGuess sid roomId guess now) room
       (room\<lparr>players := AList.update sid
                 (scoredPlayer room player (checkAnswer guess (img_answer img))
                    (now - startTimeOf room)) (players room),
             roundAnswered := finsert sid (roundAnswered room)\<rparr>)"
| player_left:
    "roomEffect srv a (Disconnect sid) room (room\<lparr>players := AList.delete sid (players room)\<rparr>)"
| game_ended:
    "map_of (timers srv) h = Some (StartRoundCb a, ms) \<Longrightarrow>
     totalRounds (settings room) < currentRound room + 1 \<Longrightarrow>
     roomEffect srv a (Fire h now) room
       (room\<lparr>currentRound := currentRound room + 1, state := Finished\<rparr>)"
| round_started:
    "map_of (timers srv) h = Some (StartRoundCb a, ms) \<Longrightarrow>
     currentRound room + 1 \<le> totalRounds (settings room) \<Longrightarrow>
     roomEffect srv a (Fire h now) room
       (room\<lparr>currentRound := currentRound room + 1, state := Playing,
             roundStartTime := Some now, roundAnswered := {||}, roundTimer := Some endH\<rparr>)"
| round_ended:
    "map_of (timers srv) h = Some (EndRoundCb a hintH, ms) \<Longrightarrow>
     roomEffect srv a (Fire h now) room
       (room\<lparr>state := RoundResult,
             players := map (\<lambda>(sid, p).
                 if sid |\<in>| roundAnswered room then (sid, p)
                 else (sid, p\<lparr>streak := 0,
                              answers := answers p @ [missedEntry (currentRound room)]\<rparr>))
               (players room),
             roundTimer := Some startH\<rparr>)"

text \<open>The disconnection of a socket.\<close>

fun isDisconnect :: "input \<Rightarrow> bool" where
  "isDisconnect (Disconnect sid) = True"
| "isDisconnect i = False"


text \<open>
  An input that leaves the round of the room object \<open>a\<close> running: it is neither a
  \<^verbatim>\<open>start-game\<close> for the room nor the firing of a timer that starts or ends a round of the
  room. A run of such inputs.
\<close>

fun roundInput :: "server \<Rightarrow> nat \<Rightarrow> input \<Rightarrow> bool" where
  "roundInput srv a (StartGame sid roomId) = (map_of (rooms srv) roomId \<noteq> Some a)"
| "roundInput srv a (Fire h now) =
     (case map_of (timers srv) h of
        None \<Rightarrow> True
      | Some (cb, ms) \<Rightarrow>
          (case cb of
             StartRoundCb b \<Rightarrow> b \<noteq> a
           | EndRoundCb b hintH \<Rightarrow> b \<noteq> a
           | HintCb b img firstLetter wordCount \<Rightarrow> True))"
| "roundInput srv a i = True"

fun roundRun :: "nat \<Rightarrow> input list \<Rightarrow> server \<Rightarrow> bool" where
  "roundRun a [] srv = True"
| "roundRun a (i # inputs) srv =
     (roundInput srv a i \<and>
      (case step i srv of Inl e \<Rightarrow> True | Inr (srv1, out) \<Rightarrow> roundRun a inputs srv1))"

text \<open>
  During a round, the history of a player holds an entry of the current round only if the
  player is in \<^verbatim>\<open>roundAnswered\<close>, and then one entry.
\<close>

definition roundOpen :: "room \<Rightarrow> bool" where
  "roundOpen room \<longleftrightarrow>
     (\<forall>(sid, p) \<in> set (players room).
        entriesFor (currentRound room) p \<le> (if sid |\<in>| roundAnswered room then 1 else 0))"

section \<open>The edit distance is the reference distance\<close>

lemma edit_dist_col0 [simp]: "edit_dist a b i 0 = i"
  by (cases i) simp_all












section \<open>The matching engine and the ladder of the specification\<close>

lemma normalize_Nil [simp]: "normalize_js [] = []"
  by (simp add: normalize_js_def trim_def toLowerCase_def)

lemma dbl_0 [simp]: "dbl 0 = 0"
  by (simp add: dbl_def)
















lemma includes_js_Nil [simp]: "includes_js s []"
  by (cases s) simp_all

lemma stripStop_Nil [simp]: "stripStop [] = []"
  by (simp add: stripStop_def stopWords_def)

lemma guessTokens_Nil [simp]: "guessTokens [] = []"
  by (simp add: guessTokens_def)













section \<open>What the normalization does\<close>

lemma space_is_space [simp]: "isSpace CHR '' ''"
  by (simp add: isSpace_def)



















section \<open>The helpers of the ladder\<close>




lemma join_Cons_Cons: "ws \<noteq> [] \<Longrightarrow> join ((ch # w) # ws) = ch # join (w # ws)"
  by (cases ws) auto





section \<open>The matching engine against the specification\<close>







text \<open>
  C8, as amended. \<open>checkAnswer "Eifel Toer" "Eiffel Tower"\<close> is 0.8: the normalized
  strings are at edit distance 2, the longer has 12 characters, and the ratio 2 / 12 is
  above 0.15 and at most 0.25.
\<close>

theorem eifel_toer_quality:
  "checkAnswer ''Eifel Toer'' ''Eiffel Tower'' = dbl (8 / 10)
   \<and> normalize_js ''Eifel Toer'' = ''eifel toer''
   \<and> normalize_js ''Eiffel Tower'' = ''eiffel tower''
   \<and> levenshtein ''eifel toer'' ''eiffel tower'' = 2
   \<and> max (length ''eifel toer'') (length ''eiffel tower'') = 12
   \<and> dbl (15 / 100) < ratioOf 2 12 \<and> ratioOf 2 12 \<le> dbl (25 / 100)"
  by code_simp

text \<open>C8 as stated fails: the result is not 0.9.\<close>

theorem eifel_toer_not_09:
  "checkAnswer ''Eifel Toer'' ''Eiffel Tower'' \<noteq> dbl (9 / 10)"
  by code_simp

section \<open>The registry and the heap\<close>

lemma getRoom_SomeD:
  "getRoom srv roomId = Some (a, room) \<Longrightarrow>
   map_of (rooms srv) roomId = Some a \<and> roomAt srv a = Some room \<and> a < length (heap srv)"
  by (auto simp: getRoom_def roomAt_def split: option.splits if_splits)

lemma getRoom_SomeI:
  "map_of (rooms srv) roomId = Some a \<Longrightarrow> roomAt srv a = Some room \<Longrightarrow>
   getRoom srv roomId = Some (a, room)"
  by (simp add: getRoom_def)

lemma roomAt_putRoom [simp]:
  "roomAt (putRoom a room srv) b
   = (if b = a \<and> a < length (heap srv) then Some room else roomAt srv b)"
  by (auto simp: roomAt_def putRoom_def)

lemma roomAt_frame [simp]:
  "roomAt (putSocket sid socket srv) b = roomAt srv b"
  "roomAt (srv\<lparr>sockets := x\<rparr>) b = roomAt srv b"
  "roomAt (srv\<lparr>timers := y\<rparr>) b = roomAt srv b"
  "roomAt (srv\<lparr>nextTimer := n\<rparr>) b = roomAt srv b"
  "roomAt (srv\<lparr>rooms := z\<rparr>) b = roomAt srv b"
  "roomAt (clearTimer h srv) b = roomAt srv b"
  "roomAt (snd (setTimer cb ms srv)) b = roomAt srv b"
  by (simp_all add: roomAt_def putSocket_def clearTimer_def setTimer_def)

lemma rooms_frame [simp]:
  "rooms (putRoom a room srv) = rooms srv"
  "rooms (putSocket sid socket srv) = rooms srv"
  "rooms (clearTimer h srv) = rooms srv"
  "rooms (snd (setTimer cb ms srv)) = rooms srv"
  by (simp_all add: putRoom_def putSocket_def clearTimer_def setTimer_def)

lemma getRoom_frame [simp]:
  "getRoom (putSocket sid socket srv) r = getRoom srv r"
  "getRoom (srv\<lparr>sockets := x\<rparr>) r = getRoom srv r"
  "getRoom (srv\<lparr>timers := y\<rparr>) r = getRoom srv r"
  "getRoom (srv\<lparr>nextTimer := n\<rparr>) r = getRoom srv r"
  "getRoom (clearTimer h srv) r = getRoom srv r"
  "getRoom (snd (setTimer cb ms srv)) r = getRoom srv r"
  by (simp_all add: getRoom_def putSocket_def clearTimer_def setTimer_def roomAt_def
        split: option.splits)

lemma getRoom_putRoom:
  "getRoom srv roomId = Some (a, room) \<Longrightarrow>
   getRoom (putRoom a room1 srv) roomId = Some (a, room1)"
  by (auto simp: getRoom_def roomAt_def putRoom_def split: option.splits if_splits)

lemma getSocket_frame [simp]:
  "getSocket (putRoom a room srv) sid = getSocket srv sid"
  "getSocket (clearTimer h srv) sid = getSocket srv sid"
  "getSocket (snd (setTimer cb ms srv)) sid = getSocket srv sid"
  by (simp_all add: getSocket_def putRoom_def clearTimer_def setTimer_def)

lemma getSocket_putSocket [simp]:
  "getSocket (putSocket sid socket srv) s = (if s = sid then Some socket else getSocket srv s)"
  by (simp add: getSocket_def putSocket_def update_conv')

lemma timers_frame [simp]:
  "timers (putRoom a room srv) = timers srv"
  "timers (putSocket sid socket srv) = timers srv"
  "nextTimer (putRoom a room srv) = nextTimer srv"
  "nextTimer (putSocket sid socket srv) = nextTimer srv"
  by (simp_all add: putRoom_def putSocket_def)

section \<open>Scoring a guess\<close>

lemma code_points_spec:
  fixes q :: rat and st :: int and n :: nat and base :: int
  defines "p0 \<equiv> Math_round (dbl (of_int base * q))"
  defines "s1 \<equiv> (if dbl (7 / 10) \<le> q then st + 1 else st)"
  defines "p1 \<equiv> (if dbl (7 / 10) \<le> q
                   then (if 3 \<le> s1 then p0 + 200 else if 2 \<le> s1 then p0 + 100 else p0)
                   else p0)"
  defines "pos \<equiv> int n + 1"
  shows "(if dbl (7 / 10) \<le> q
          then (if pos = 1 then p1 + 300 else if pos = 2 then p1 + 150
                else if pos = 3 then p1 + 50 else p1)
          else p1)
         = p0 + (if dbl (7 / 10) \<le> q then spec_streakBonus s1 + spec_positionBonus (n + 1) else 0)"
  unfolding p1_def pos_def spec_streakBonus_def spec_positionBonus_def
  by (cases "dbl (7 / 10) \<le> q") auto

lemma submit_guess_scored:
  fixes now :: int and guess :: string
  assumes r: "getRoom srv roomId = Some (a, room)" and st: "state room = Playing"
    and p: "map_of (players room) sid = Some player" and na: "sid |\<notin>| roundAnswered room"
    and img: "currentImage room = Some img" and q: "0 < checkAnswer guess (img_answer img)"
  defines "mq \<equiv> checkAnswer guess (img_answer img)"
  defines "elapsed \<equiv> now - startTimeOf room"
  defines "sc \<equiv> spec_score mq elapsed (roundTime (settings room) * 1000) (streak player)
                  (fcard (roundAnswered room))"
  defines "room1 \<equiv> room\<lparr>players := AList.update sid (scoredPlayer room player mq elapsed)
                                      (players room),
                         roundAnswered := finsert sid (roundAnswered room)\<rparr>"
  shows "submit_guess sid roomId guess now srv =
           Inr (putRoom a room1 srv,
                [(ToSocket sid, GuessResultCorrect (fst sc) (score player + fst sc)
                    (int (fcard (roundAnswered room)) + 1) (snd sc) elapsed
                    (if mq < 1 \<and> dbl (7 / 10) \<le> mq then Close
                     else if mq < dbl (7 / 10) then Partial else Exact)
                    (Math_round (dbl (mq * 100)))),
                 (ToRoom roomId, LeaderboardUpdate (getPlayerList room1)
                    (fcard (roundAnswered room1)) (length (players room1)))])"
proof -
  have sc1: "fst sc = (let base = max 100 (min 1000 (Math_round (dbl (1000 -
                   dbl (dbl (of_int elapsed / of_int (roundTime (settings room) * 1000)) * 900)))));
                 p0 = Math_round (dbl (of_int base * mq));
                 s1 = (if dbl (7 / 10) \<le> mq then streak player + 1 else streak player);
                 p1 = (if dbl (7 / 10) \<le> mq
                   then (if 3 \<le> s1 then p0 + 200 else if 2 \<le> s1 then p0 + 100 else p0)
                   else p0);
                 pos = int (fcard (roundAnswered room)) + 1
             in (if dbl (7 / 10) \<le> mq
                 then (if pos = 1 then p1 + 300 else if pos = 2 then p1 + 150
                       else if pos = 3 then p1 + 50 else p1)
                 else p1))"
    unfolding Let_def code_points_spec
    by (simp add: sc_def spec_score_def spec_base_def Let_def)
  have sc2: "snd sc = (if dbl (7 / 10) \<le> mq then streak player + 1 else streak player)"
    by (simp add: sc_def spec_score_def Let_def)
  have sp: "scoredPlayer room player mq elapsed =
      player\<lparr>score := score player + fst sc,
             answers := answers player @
               [\<lparr>ans_round = currentRound room, ans_correct = True, ans_points = fst sc,
                 ans_time = Some elapsed, ans_matchQuality = Some mq\<rparr>],
             streak := snd sc\<rparr>"
    by (simp add: scoredPlayer_def sc_def split: prod.splits)
  show ?thesis
    unfolding submit_guess_def room1_def sp sc1 sc2
    using r st p na img q
    by (simp add: Let_def mq_def [symmetric] elapsed_def [symmetric] split del: if_split)
qed

lemma submit_guess_duplicate:
  assumes "getRoom srv roomId = Some (a, room)" and "state room = Playing"
    and "map_of (players room) sid = Some player" and "sid |\<in>| roundAnswered room"
  shows "submit_guess sid roomId guess now srv = Inr (srv, [(ToSocket sid, GuessResultAlready)])"
  using assms by (simp add: submit_guess_def)


section \<open>The effect of an input on one room\<close>


















section \<open>The sample games reach their states\<close>

lemma run_append:
  "run (xs @ ys) srv =
     (case run xs srv of
        Inl e \<Rightarrow> Inl e
      | Inr (srv1, out1) \<Rightarrow>
          (case run ys srv1 of
             Inl e \<Rightarrow> Inl e
           | Inr (srv2, out2) \<Rightarrow> Inr (srv2, out1 @ out2)))"
  by (induction xs arbitrary: srv) (auto split: sum.splits prod.splits)

lemma finalServer_append:
  "finalServer (run xs srv) = Some srv1 \<Longrightarrow>
   finalServer (run (xs @ ys) srv) = finalServer (run ys srv1)"
  by (auto simp: run_append finalServer_def split: sum.splits prod.splits)

lemma lobby_reached: "finalServer (run lobbyTrace server0) = Some lobbyServer"
  by code_simp

lemma play_reached: "finalServer (run playTrace server0) = Some playServer"
proof -
  have "finalServer (run [StartGame ''hs'' ''r'', Fire 0 2000] lobbyServer) = Some playServer"
    by code_simp
  then show ?thesis
    unfolding playTrace_def using finalServer_append [OF lobby_reached] by simp
qed

lemma scored_reached: "finalServer (run scoredTrace server0) = Some scoredServer"
proof -
  have "finalServer (run [SubmitGuess ''p1'' ''r'' ''Eiffel Tower'' 2000] playServer)
          = Some scoredServer"
    by code_simp
  then show ?thesis
    unfolding scoredTrace_def using finalServer_append [OF play_reached] by simp
qed

lemma closed_reached: "finalServer (run closedTrace server0) = Some closedServer"
proof -
  have "finalServer (run [Fire 2 32000] playServer) = Some closedServer"
    by code_simp
  then show ?thesis
    unfolding closedTrace_def using finalServer_append [OF play_reached] by simp
qed

lemma finished_reached: "finalServer (run finishedTrace server0) = Some finishedServer"
proof -
  have "finalServer (run [Fire 3 37000] closedServer) = Some finishedServer"
    by code_simp
  then show ?thesis
    unfolding finishedTrace_def using finalServer_append [OF closed_reached] by simp
qed

lemma roundTwo_reached: "finalServer (run roundTwoTrace server0) = Some roundTwoServer"
  by code_simp

section \<open>The claims on the handlers\<close>

lemma finalServer_SomeD: "finalServer res = Some srv \<Longrightarrow> \<exists>out. res = Inr (srv, out)"
  by (auto simp: finalServer_def split: sum.splits)

lemmas sample_defs =
  lobbyServer_def lobbyRoom_def playServer_def playRoom_def scoredServer_def scoredRoom_def
  closedServer_def closedRoom_def finishedServer_def finishedRoom_def roundTwoServer_def
  roundTwoRoom_def eiffelTower_def bigBen_def ann_def

lemma sample_rooms:
  "getRoom lobbyServer ''r'' = Some (0, lobbyRoom)"
  "getRoom playServer ''r'' = Some (0, playRoom)"
  "getRoom scoredServer ''r'' = Some (0, scoredRoom)"
  "getRoom closedServer ''r'' = Some (0, closedRoom)"
  "getRoom finishedServer ''r'' = Some (0, finishedRoom)"
  "getRoom roundTwoServer ''r'' = Some (0, roundTwoRoom)"
  by (simp_all add: getRoom_def roomAt_def lobbyServer_def playServer_def scoredServer_def
        closedServer_def finishedServer_def roundTwoServer_def)

section \<open>The host joins\<close>

text \<open>
  C10. A \<^verbatim>\<open>host-join\<close> that names a registered room and carries the host identifier of
  that room sets the state of the room to \<open>Lobby\<close>, whatever the state was, records the
  socket as the host socket, and answers the socket with \<^verbatim>\<open>room-joined\<close>; nothing else of
  the room changes. The event of a connected socket is handled by this handler.
\<close>

theorem host_join_sets_lobby:
  assumes "getRoom srv roomId = Some (a, room)" and "hostId room = hId"
  shows "host_join sid roomId hId srv =
           (putSocket sid \<lparr>sock_roomId = Some roomId, isHost = True\<rparr>
              (putRoom a (room\<lparr>hostSocketId := Some sid, state := Lobby\<rparr>) srv),
            [(ToSocket sid, RoomJoinedHost roomId (settings room) (length (images room))
                              (getPlayerList room))])
       \<and> getRoom (fst (host_join sid roomId hId srv)) roomId
           = Some (a, room\<lparr>hostSocketId := Some sid, state := Lobby\<rparr>)
       \<and> (isConnected srv sid
            \<longrightarrow> step (HostJoin sid roomId hId) srv = Inr (host_join sid roomId hId srv))"
  using assms getRoom_putRoom [OF assms(1)]
  by (simp add: host_join_def Let_def getPlayerList_def)

text \<open>The room of the finished sample game and the room of the running one go back to
  the lobby.\<close>

theorem host_join_sets_lobby_witness:
  "map_option (\<lambda>x. state (snd x)) (getRoom finishedServer ''r'') = Some Finished
   \<and> map_option (\<lambda>x. state (snd x)) (getRoom (fst (host_join ''hs'' ''r'' ''h'' finishedServer)) ''r'')
       = Some Lobby
   \<and> map_option (\<lambda>x. state (snd x)) (getRoom playServer ''r'') = Some Playing
   \<and> map_option (\<lambda>x. state (snd x)) (getRoom (fst (host_join ''hs'' ''r'' ''h'' playServer)) ''r'')
       = Some Lobby
   \<and> step (HostJoin ''hs'' ''r'' ''h'') finishedServer
       = Inr (host_join ''hs'' ''r'' ''h'' finishedServer)"
proof -
  have h: "hostId finishedRoom = ''h''" "hostId playRoom = ''h''"
    by (simp_all add: finishedRoom_def closedRoom_def playRoom_def lobbyRoom_def)
  have c: "isConnected finishedServer ''hs''"
    by (simp add: isConnected_def getSocket_def finishedServer_def lobbyServer_def)
  have s: "state finishedRoom = Finished" "state playRoom = Playing"
    by (simp_all add: finishedRoom_def closedRoom_def playRoom_def)
  note t1 = host_join_sets_lobby [OF sample_rooms(5) h(1), of "''hs''"]
  note t2 = host_join_sets_lobby [OF sample_rooms(2) h(2), of "''hs''"]
  have g1: "getRoom (fst (host_join ''hs'' ''r'' ''h'' finishedServer)) ''r''
              = Some (0, finishedRoom\<lparr>hostSocketId := Some ''hs'', state := Lobby\<rparr>)"
    using t1 by blast
  have g2: "getRoom (fst (host_join ''hs'' ''r'' ''h'' playServer)) ''r''
              = Some (0, playRoom\<lparr>hostSocketId := Some ''hs'', state := Lobby\<rparr>)"
    using t2 by blast
  have g3: "step (HostJoin ''hs'' ''r'' ''h'') finishedServer
              = Inr (host_join ''hs'' ''r'' ''h'' finishedServer)"
    using t1 c by blast
  show ?thesis
    unfolding g1 g2 sample_rooms using s g3 by simp
qed

section \<open>A second guess\<close>

text \<open>
  C2. In a playing room, a guess of a registered player who is in \<^verbatim>\<open>roundAnswered\<close> leaves
  the whole server as it is (the score, the streak and the history of the player, the set
  \<^verbatim>\<open>roundAnswered\<close>, every room) and emits one event, the acknowledgment \<^verbatim>\<open>alreadyAnswered\<close>
  to the sender: no leaderboard goes out. After a first guess of quality above 0 has been
  scored, every further guess of that player is such a guess.
\<close>

theorem duplicate_guess_rejected:
  "(getRoom srv roomId = Some (a, room) \<and> state room = Playing
      \<and> map_of (players room) sid = Some player \<and> sid |\<in>| roundAnswered room
     \<longrightarrow> submit_guess sid roomId guess now srv = Inr (srv, [(ToSocket sid, GuessResultAlready)]))
   \<and> (getRoom srv roomId = Some (a, room) \<and> state room = Playing
      \<and> map_of (players room) sid = Some player \<and> sid |\<notin>| roundAnswered room
      \<and> currentImage room = Some img \<and> 0 < checkAnswer guess (img_answer img)
      \<and> submit_guess sid roomId guess now srv = Inr (srv1, out1)
     \<longrightarrow> submit_guess sid roomId guess2 now2 srv1
         = Inr (srv1, [(ToSocket sid, GuessResultAlready)]))"
proof (intro conjI impI)
  assume "getRoom srv roomId = Some (a, room) \<and> state room = Playing
      \<and> map_of (players room) sid = Some player \<and> sid |\<in>| roundAnswered room"
  then show "submit_guess sid roomId guess now srv = Inr (srv, [(ToSocket sid, GuessResultAlready)])"
    using submit_guess_duplicate by blast
next
  assume h: "getRoom srv roomId = Some (a, room) \<and> state room = Playing
      \<and> map_of (players room) sid = Some player \<and> sid |\<notin>| roundAnswered room
      \<and> currentImage room = Some img \<and> 0 < checkAnswer guess (img_answer img)
      \<and> submit_guess sid roomId guess now srv = Inr (srv1, out1)"
  let ?room1 = "room\<lparr>players := AList.update sid
        (scoredPlayer room player (checkAnswer guess (img_answer img)) (now - startTimeOf room))
        (players room), roundAnswered := finsert sid (roundAnswered room)\<rparr>"
  have r: "getRoom srv roomId = Some (a, room)" and st: "state room = Playing"
    and p: "map_of (players room) sid = Some player" and na: "sid |\<notin>| roundAnswered room"
    and img: "currentImage room = Some img" and q: "0 < checkAnswer guess (img_answer img)"
    and first: "submit_guess sid roomId guess now srv = Inr (srv1, out1)"
    using h by auto
  have srv1: "srv1 = putRoom a ?room1 srv"
    using first unfolding submit_guess_scored [OF r st p na img q] by simp
  have "getRoom srv1 roomId = Some (a, ?room1)"
    unfolding srv1 by (rule getRoom_putRoom [OF r])
  then show "submit_guess sid roomId guess2 now2 srv1
             = Inr (srv1, [(ToSocket sid, GuessResultAlready)])"
    by (rule submit_guess_duplicate) (simp_all add: st update_conv')
qed

text \<open>In the sample game, the second and the third guess of \<open>p1\<close> change nothing.\<close>

theorem duplicate_guess_rejected_witness:
  "submit_guess ''p1'' ''r'' ''eiffel tower'' 9000 scoredServer
     = Inr (scoredServer, [(ToSocket ''p1'', GuessResultAlready)])
   \<and> (\<exists>out1. submit_guess ''p1'' ''r'' ''Eiffel Tower'' 2000 playServer = Inr (scoredServer, out1))
   \<and> submit_guess ''p1'' ''r'' ''Eiffel'' 9000 scoredServer
     = Inr (scoredServer, [(ToSocket ''p1'', GuessResultAlready)])"
proof -
  have s: "state scoredRoom = Playing"
    "map_of (players scoredRoom) ''p1'' = Some (snd (hd (players scoredRoom)))"
    "''p1'' |\<in>| roundAnswered scoredRoom"
    by (simp_all add: scoredRoom_def playRoom_def)
  have p: "state playRoom = Playing" "map_of (players playRoom) ''p1'' = Some ann"
    "''p1'' |\<notin>| roundAnswered playRoom" "currentImage playRoom = Some eiffelTower"
    by (simp_all add: playRoom_def lobbyRoom_def currentImage_def)
  have q: "0 < checkAnswer ''Eiffel Tower'' (img_answer eiffelTower)" by code_simp
  have "finalServer (submit_guess ''p1'' ''r'' ''Eiffel Tower'' 2000 playServer) = Some scoredServer"
    by code_simp
  then obtain out1 where
    first: "submit_guess ''p1'' ''r'' ''Eiffel Tower'' 2000 playServer = Inr (scoredServer, out1)"
    using finalServer_SomeD by blast
  have one: "submit_guess ''p1'' ''r'' ''eiffel tower'' 9000 scoredServer
               = Inr (scoredServer, [(ToSocket ''p1'', GuessResultAlready)])"
    using duplicate_guess_rejected [of scoredServer "''r''" 0 scoredRoom "''p1''"
        "snd (hd (players scoredRoom))" "''eiffel tower''" 9000] s sample_rooms(3)
    by blast
  have two: "submit_guess ''p1'' ''r'' ''Eiffel'' 9000 scoredServer
               = Inr (scoredServer, [(ToSocket ''p1'', GuessResultAlready)])"
    using duplicate_guess_rejected [of playServer "''r''" 0 playRoom "''p1''" ann
        "''Eiffel Tower''" 2000 eiffelTower scoredServer out1 "''Eiffel''" 9000]
      p q first sample_rooms(2)
    by blast
  show ?thesis using one two first by blast
qed

section \<open>The points of a guess\<close>





section \<open>The end of a round\<close>

lemma currentImage_same:
  "currentRound r1 = currentRound r \<Longrightarrow> images r1 = images r \<Longrightarrow> currentImage r1 = currentImage r"
  by (simp add: currentImage_def Let_def)

lemma map_of_map_keyed:
  "map_of (map (\<lambda>(k, v). if P k then (k, v) else (k, f v)) xs) k
   = map_option (\<lambda>v. if P k then v else f v) (map_of xs k)"
  by (induction xs) auto

lemma endRound_result:
  assumes r: "roomAt srv a = Some room" and img: "currentImage room = Some img"
  defines "room1 \<equiv> room\<lparr>state := RoundResult,
             players := map (\<lambda>(sid, p).
                 if sid |\<in>| roundAnswered room then (sid, p)
                 else (sid, p\<lparr>streak := 0,
                              answers := answers p @ [missedEntry (currentRound room)]\<rparr>))
               (players room),
             roundTimer := Some (nextTimer srv)\<rparr>"
  shows "endRound a srv =
           Inr (putRoom a room1
                  (srv\<lparr>timers := timers srv @ [(nextTimer srv, StartRoundCb a, 5000)],
                       nextTimer := Suc (nextTimer srv)\<rparr>),
                [(ToRoom (room_id room),
                  RoundEnd (currentRound room) (totalRounds (settings room)) (img_answer img)
                    (img_data img) (getPlayerList room1) (fcard (roundAnswered room))
                    (length (players room)))])"
proof -
  have "currentImage (room\<lparr>state := RoundResult, players := ps\<rparr>) = Some img" for ps
    using img currentImage_same [of "room\<lparr>state := RoundResult, players := ps\<rparr>" room] by simp
  then show ?thesis
    unfolding room1_def missedEntry_def
    using r by (simp add: endRound_def Let_def setTimer_def)
qed

lemma ben_quality:
  "checkAnswer ''ben'' ''Big Ben'' = dbl (4 / 10)" "0 < dbl (4 / 10)" "dbl (4 / 10) < dbl (7 / 10)"
  by code_simp+

text \<open>
  C6, as amended. The settlement at the end of a round goes by \<^verbatim>\<open>roundAnswered\<close>: the room
  goes to \<open>RoundResult\<close>, every registered player who is not in \<^verbatim>\<open>roundAnswered\<close> (no guess
  of quality above 0 in the round) has the streak reset to 0 and gets the history entry
  \<^verbatim>\<open>{correct: false, points: 0}\<close> of the round, and every player in \<^verbatim>\<open>roundAnswered\<close> is left
  as is. So a player whose scored guess had a quality above 0 and below 0.7 keeps the
  streak over the end of the round and has one entry for the round, the one of the guess.
\<close>

theorem endRound_settlement:
  fixes now :: int and guess :: string and img :: image
  defines "q \<equiv> checkAnswer guess (img_answer img)"
  shows
  "(roomAt srv a = Some room \<and> currentImage room = Some img
    \<longrightarrow> (\<exists>srv1 out room1.
           endRound a srv = Inr (srv1, out) \<and> roomAt srv1 a = Some room1
           \<and> state room1 = RoundResult \<and> roundAnswered room1 = roundAnswered room
           \<and> map fst (players room1) = map fst (players room)
           \<and> (\<forall>sid p. map_of (players room) sid = Some p \<longrightarrow>
                 map_of (players room1) sid =
                   Some (if sid |\<in>| roundAnswered room then p
                         else p\<lparr>streak := 0,
                                answers := answers p @ [missedEntry (currentRound room)]\<rparr>))))
   \<and> (getRoom srv roomId = Some (a, room) \<and> currentImage room = Some img
      \<and> state room = Playing \<and> map_of (players room) sid = Some player
      \<and> sid |\<notin>| roundAnswered room \<and> 0 < q \<and> q < dbl (7 / 10)
     \<longrightarrow> (\<exists>srv1 out1 srv2 out2 room2.
            submit_guess sid roomId guess now srv = Inr (srv1, out1)
            \<and> endRound a srv1 = Inr (srv2, out2) \<and> roomAt srv2 a = Some room2
            \<and> state room2 = RoundResult
            \<and> map_of (players room2) sid
                = Some (player\<lparr>score := score player
                            + Math_round (dbl (of_int (spec_base (now - startTimeOf room)
                                 (roundTime (settings room) * 1000)) * q)),
                          answers := answers player @
                            [\<lparr>ans_round = currentRound room, ans_correct = True,
                              ans_points = Math_round (dbl (of_int (spec_base
                                 (now - startTimeOf room) (roundTime (settings room) * 1000)) * q)),
                              ans_time = Some (now - startTimeOf room),
                              ans_matchQuality = Some q\<rparr>],
                          streak := streak player\<rparr>)))"
proof (intro conjI impI)
  assume h: "roomAt srv a = Some room \<and> currentImage room = Some img"
  let ?room1 = "room\<lparr>state := RoundResult,
             players := map (\<lambda>(sid, p).
                 if sid |\<in>| roundAnswered room then (sid, p)
                 else (sid, p\<lparr>streak := 0,
                              answers := answers p @ [missedEntry (currentRound room)]\<rparr>))
               (players room),
             roundTimer := Some (nextTimer srv)\<rparr>"
  have a: "a < length (heap srv)" using h by (auto simp: roomAt_def split: if_splits)
  have e: "endRound a srv =
           Inr (putRoom a ?room1
                  (srv\<lparr>timers := timers srv @ [(nextTimer srv, StartRoundCb a, 5000)],
                       nextTimer := Suc (nextTimer srv)\<rparr>),
                [(ToRoom (room_id room),
                  RoundEnd (currentRound room) (totalRounds (settings room)) (img_answer img)
                    (img_data img) (getPlayerList ?room1) (fcard (roundAnswered room))
                    (length (players room)))])"
    using endRound_result [of srv a room img] h by simp
  have keys: "map fst (players ?room1) = map fst (players room)"
    by (induction "players room") (auto split: prod.splits)
  have vals: "map_of (players ?room1) sid =
      Some (if sid |\<in>| roundAnswered room then p
            else p\<lparr>streak := 0, answers := answers p @ [missedEntry (currentRound room)]\<rparr>)"
    if "map_of (players room) sid = Some p" for sid p
    using that by (simp add: map_of_map_keyed)
  have at: "roomAt (putRoom a ?room1
                  (srv\<lparr>timers := timers srv @ [(nextTimer srv, StartRoundCb a, 5000)],
                       nextTimer := Suc (nextTimer srv)\<rparr>)) a = Some ?room1"
    using a by (simp add: roomAt_def putRoom_def)
  show "\<exists>srv1 out room1.
           endRound a srv = Inr (srv1, out) \<and> roomAt srv1 a = Some room1
           \<and> state room1 = RoundResult \<and> roundAnswered room1 = roundAnswered room
           \<and> map fst (players room1) = map fst (players room)
           \<and> (\<forall>sid p. map_of (players room) sid = Some p \<longrightarrow>
                 map_of (players room1) sid =
                   Some (if sid |\<in>| roundAnswered room then p
                         else p\<lparr>streak := 0,
                                answers := answers p @ [missedEntry (currentRound room)]\<rparr>))"
    apply (rule exI [where x = "putRoom a ?room1
                  (srv\<lparr>timers := timers srv @ [(nextTimer srv, StartRoundCb a, 5000)],
                       nextTimer := Suc (nextTimer srv)\<rparr>)"])
    apply (rule exI)
    apply (rule exI [where x = ?room1])
    using e at keys vals by simp
next
  assume h: "getRoom srv roomId = Some (a, room) \<and> currentImage room = Some img
      \<and> state room = Playing \<and> map_of (players room) sid = Some player
      \<and> sid |\<notin>| roundAnswered room \<and> 0 < q \<and> q < dbl (7 / 10)"
  let ?e = "now - startTimeOf room"
  let ?pts = "Math_round (dbl (of_int (spec_base ?e (roundTime (settings room) * 1000)) * q))"
  let ?p1 = "player\<lparr>score := score player + ?pts,
                answers := answers player @
                  [\<lparr>ans_round = currentRound room, ans_correct = True, ans_points = ?pts,
                    ans_time = Some ?e, ans_matchQuality = Some q\<rparr>],
                streak := streak player\<rparr>"
  let ?room1 = "room\<lparr>players := AList.update sid (scoredPlayer room player q ?e) (players room),
                     roundAnswered := finsert sid (roundAnswered room)\<rparr>"
  have r: "getRoom srv roomId = Some (a, room)" and img: "currentImage room = Some img"
    and st: "state room = Playing" and p: "map_of (players room) sid = Some player"
    and na: "sid |\<notin>| roundAnswered room" and q0: "0 < q" and q7: "q < dbl (7 / 10)"
    using h by auto
  have sp: "scoredPlayer room player q ?e = ?p1"
    using q7 by (simp add: scoredPlayer_def spec_score_def Let_def)
  obtain out1 where first: "submit_guess sid roomId guess now srv = Inr (putRoom a ?room1 srv, out1)"
    using submit_guess_scored [OF r st p na img q0 [unfolded q_def], of now]
    by (simp add: q_def)
  have at1: "roomAt (putRoom a ?room1 srv) a = Some ?room1"
    using getRoom_SomeD [OF r] by simp
  have img1: "currentImage ?room1 = Some img"
    using img currentImage_same [of ?room1 room] by simp
  let ?srv1 = "putRoom a ?room1 srv"
  let ?room2 = "?room1\<lparr>state := RoundResult,
             players := map (\<lambda>(sid, p).
                 if sid |\<in>| roundAnswered ?room1 then (sid, p)
                 else (sid, p\<lparr>streak := 0,
                              answers := answers p @ [missedEntry (currentRound ?room1)]\<rparr>))
               (players ?room1),
             roundTimer := Some (nextTimer ?srv1)\<rparr>"
  obtain srv2 out2 where second: "endRound a ?srv1 = Inr (srv2, out2)"
    and srv2: "srv2 = putRoom a ?room2
                  (?srv1\<lparr>timers := timers ?srv1 @ [(nextTimer ?srv1, StartRoundCb a, 5000)],
                       nextTimer := Suc (nextTimer ?srv1)\<rparr>)"
    using endRound_result [OF at1 img1] by simp
  have at2: "roomAt srv2 a = Some ?room2"
    unfolding srv2 using getRoom_SomeD [OF r] by (simp add: roomAt_def putRoom_def)
  have pl: "map_of (players ?room2) sid = Some ?p1"
    by (simp add: map_of_map_keyed update_conv' sp)
  show "\<exists>srv1 out1 srv2 out2 room2.
            submit_guess sid roomId guess now srv = Inr (srv1, out1)
            \<and> endRound a srv1 = Inr (srv2, out2) \<and> roomAt srv2 a = Some room2
            \<and> state room2 = RoundResult
            \<and> map_of (players room2) sid = Some ?p1"
    using first second at2 pl by (intro exI [where x = ?room2] exI conjI) simp_all
qed


text \<open>In round 2 of the sample game \<open>p1\<close> has the streak 1. If the round ends now, the
  streak is reset; if \<open>p1\<close> first guesses "ben" for "Big Ben", the streak stays.\<close>

theorem endRound_settlement_witness:
  "(\<exists>srv1 out room1.
      endRound 0 roundTwoServer = Inr (srv1, out) \<and> roomAt srv1 0 = Some room1
      \<and> map_option (\<lambda>p. (streak p, historyOf p)) (map_of (players room1) ''p1'')
          = Some (0, [(1, True, 1270), (2, False, 0)]))
   \<and> (\<exists>srv1 out1 srv2 out2 room2.
        submit_guess ''p1'' ''r'' ''ben'' 40000 roundTwoServer = Inr (srv1, out1)
        \<and> endRound 0 srv1 = Inr (srv2, out2) \<and> roomAt srv2 0 = Some room2
        \<and> map_option (\<lambda>p. (streak p, historyOf p)) (map_of (players room2) ''p1'')
            = Some (1, [(1, True, 1270), (2, True, 364)]))"
proof -
  let ?P = "ann\<lparr>score := 1270,
                 answers := [\<lparr>ans_round = 1, ans_correct = True, ans_points = 1270,
                              ans_time = Some 1000, ans_matchQuality = Some 1\<rparr>],
                 streak := 1\<rparr>"
  have g: "getRoom roundTwoServer ''r'' = Some (0, roundTwoRoom)"
    and at: "roomAt roundTwoServer 0 = Some roundTwoRoom"
    by (simp_all add: getRoom_def roomAt_def roundTwoServer_def)
  have h: "currentImage roundTwoRoom = Some bigBen" "state roundTwoRoom = Playing"
    "map_of (players roundTwoRoom) ''p1'' = Some ?P" "''p1'' |\<notin>| roundAnswered roundTwoRoom"
    "currentRound roundTwoRoom = 2" "startTimeOf roundTwoRoom = 37000"
    "roundTime (settings roundTwoRoom) = 30"
    by (simp_all add: roundTwoRoom_def currentImage_def startTimeOf_def)
  have q: "checkAnswer ''ben'' (img_answer bigBen) = dbl (4 / 10)"
    using ben_quality(1) by (simp add: bigBen_def)
  have pts: "Math_round (dbl (of_int (spec_base (40000 - 37000) (30 * 1000)) * dbl (4 / 10))) = 364"
    by code_simp
  note t = endRound_settlement [where srv = roundTwoServer and a = 0 and room = roundTwoRoom
      and img = bigBen and roomId = "''r''" and sid = "''p1''" and player = ?P
      and guess = "''ben''" and now = 40000]
  have one: "\<exists>srv1 out room1.
      endRound 0 roundTwoServer = Inr (srv1, out) \<and> roomAt srv1 0 = Some room1
      \<and> map_option (\<lambda>p. (streak p, historyOf p)) (map_of (players room1) ''p1'')
          = Some (0, [(1, True, 1270), (2, False, 0)])"
  proof -
    obtain srv1 out room1 where e: "endRound 0 roundTwoServer = Inr (srv1, out)"
        "roomAt srv1 0 = Some room1"
      and v: "\<forall>sid p. map_of (players roundTwoRoom) sid = Some p \<longrightarrow>
                 map_of (players room1) sid =
                   Some (if sid |\<in>| roundAnswered roundTwoRoom then p
                         else p\<lparr>streak := 0,
                                answers := answers p @ [missedEntry (currentRound roundTwoRoom)]\<rparr>)"
      using t at h(1) by blast
    have "map_of (players room1) ''p1''
            = Some (?P\<lparr>streak := 0, answers := answers ?P @ [missedEntry 2]\<rparr>)"
      using v h(3,4,5) by simp
    then have "map_option (\<lambda>p. (streak p, historyOf p)) (map_of (players room1) ''p1'')
                 = Some (0, [(1, True, 1270), (2, False, 0)])"
      by (simp add: historyOf_def missedEntry_def ann_def)
    then show ?thesis using e by blast
  qed
  have two: "\<exists>srv1 out1 srv2 out2 room2.
        submit_guess ''p1'' ''r'' ''ben'' 40000 roundTwoServer = Inr (srv1, out1)
        \<and> endRound 0 srv1 = Inr (srv2, out2) \<and> roomAt srv2 0 = Some room2
        \<and> map_option (\<lambda>p. (streak p, historyOf p)) (map_of (players room2) ''p1'')
            = Some (1, [(1, True, 1270), (2, True, 364)])"
  proof -
    have pre: "getRoom roundTwoServer ''r'' = Some (0, roundTwoRoom)
        \<and> currentImage roundTwoRoom = Some bigBen
        \<and> state roundTwoRoom = Playing \<and> map_of (players roundTwoRoom) ''p1'' = Some ?P
        \<and> ''p1'' |\<notin>| roundAnswered roundTwoRoom
        \<and> 0 < checkAnswer ''ben'' (img_answer bigBen)
        \<and> checkAnswer ''ben'' (img_answer bigBen) < dbl (7 / 10)"
      using g h q ben_quality(2,3) by simp
    obtain srv1 out1 srv2 out2 room2 where
      e: "submit_guess ''p1'' ''r'' ''ben'' 40000 roundTwoServer = Inr (srv1, out1)"
         "endRound 0 srv1 = Inr (srv2, out2)" "roomAt srv2 0 = Some room2"
      and v: "map_of (players room2) ''p1''
                = Some (?P\<lparr>score := score ?P
                            + Math_round (dbl (of_int (spec_base (40000 - startTimeOf roundTwoRoom)
                                 (roundTime (settings roundTwoRoom) * 1000))
                                 * checkAnswer ''ben'' (img_answer bigBen))),
                          answers := answers ?P @
                            [\<lparr>ans_round = currentRound roundTwoRoom, ans_correct = True,
                              ans_points = Math_round (dbl (of_int (spec_base
                                 (40000 - startTimeOf roundTwoRoom)
                                 (roundTime (settings roundTwoRoom) * 1000))
                                 * checkAnswer ''ben'' (img_answer bigBen))),
                              ans_time = Some (40000 - startTimeOf roundTwoRoom),
                              ans_matchQuality = Some (checkAnswer ''ben'' (img_answer bigBen))\<rparr>],
                          streak := streak ?P\<rparr>)"
      using t pre by blast
    have "map_option (\<lambda>p. (streak p, historyOf p)) (map_of (players room2) ''p1'')
            = Some (1, [(1, True, 1270), (2, True, 364)])"
      unfolding v q h(5,6,7) using pts by (simp add: historyOf_def ann_def)
    then show ?thesis using e by blast
  qed
  show ?thesis using one two by blast
qed

text \<open>
  C6 as stated fails: in the sample game of two rounds \<open>p1\<close> answers round 2 with the
  quality 0.4, below 0.7, and after the end of the round still has the streak 1 and no
  \<^verbatim>\<open>{correct: false}\<close> entry for round 2.
\<close>

theorem partial_answer_keeps_streak:
  "checkAnswer ''ben'' ''Big Ben'' = dbl (4 / 10) \<and> dbl (4 / 10) < dbl (7 / 10)
   \<and> standing (run twoRoundTrace server0) ''r''
       = Some (RoundResult,
               [(''p1'', 1, [(1, True, 1270), (2, True, 364)]),
                (''p2'', 0, [(1, False, 0), (2, False, 0)])])"
proof -
  have "standing (run twoRoundTrace server0) ''r''
       = Some (RoundResult,
               [(''p1'', 1, [(1, True, 1270), (2, True, 364)]),
                (''p2'', 0, [(1, False, 0), (2, False, 0)])])"
    by code_simp
  then show ?thesis using ben_quality by simp
qed

section \<open>A game of one round\<close>

lemma start_game_result:
  assumes "getRoom srv roomId = Some (a, room)" and "socketIsHost srv sid" and "images room \<noteq> []"
  defines "room1 \<equiv> room\<lparr>settings := (settings room)\<lparr>totalRounds :=
                               min (totalRounds (settings room)) (int (length (images room)))\<rparr>,
                             currentRound := 0, state := Playing,
                             players := map (\<lambda>(k, p). (k, p\<lparr>score := 0, answers := [], streak := 0\<rparr>))
                                          (players room)\<rparr>"
  shows "start_game sid roomId srv =
           ((putRoom a room1 srv)\<lparr>timers := timers srv @ [(nextTimer srv, StartRoundCb a, 2000)],
                                  nextTimer := Suc (nextTimer srv)\<rparr>,
            [(ToRoom roomId, GameStarted (totalRounds (settings room1))
                          (roundTime (settings room1)) (length (players room1)))])"
  using assms(1-3) by (simp add: start_game_def Let_def setTimer_def room1_def)

lemma startRound_last:
  assumes "roomAt srv a = Some room" and "totalRounds (settings room) \<le> currentRound room"
  defines "room1 \<equiv> room\<lparr>currentRound := currentRound room + 1, state := Finished\<rparr>"
  shows "startRound a now srv =
           Inr (putRoom a room1 (case roundTimer room of None \<Rightarrow> srv | Some h \<Rightarrow> clearTimer h srv),
                [(ToRoom (room_id room),
                  GameOver (sort_key (\<lambda>p. - pi_score p) (getPlayerList room1))
                    (case sort_key (\<lambda>p. - pi_score p) (getPlayerList room1) of
                       [] \<Rightarrow> None | p # ps \<Rightarrow> Some p)
                    (totalRounds (settings room)))])"
  using assms(1,2) by (simp add: startRound_def endGame_def Let_def room1_def)

text \<open>
  C7, as amended. \<^verbatim>\<open>start-game\<close> of the host clamps \<^verbatim>\<open>totalRounds\<close> to the number of
  images (5 becomes 1 with one image), puts the room in \<open>Playing\<close> at round 0 and sets the
  2-second timer of the first round. The end of a round, of the last one too, puts the
  room in \<open>RoundResult\<close>, sets the 5-second timer of \<open>startRound\<close> and emits \<^verbatim>\<open>round-end\<close>
  only, no \<^verbatim>\<open>game-over\<close>. When that timer fires after the last round, \<open>startRound\<close> puts
  the room in \<open>Finished\<close> and emits \<^verbatim>\<open>game-over\<close>, once. The sample game with one image
  and \<^verbatim>\<open>totalRounds = 5\<close> goes through these states, and its run emits one \<^verbatim>\<open>game-over\<close>.
\<close>

theorem single_round_game:
  "(getRoom srv roomId = Some (a, room) \<and> socketIsHost srv sid \<and> images room \<noteq> []
     \<longrightarrow> (\<exists>srv1 out room1.
            start_game sid roomId srv = (srv1, out) \<and> roomAt srv1 a = Some room1
            \<and> totalRounds (settings room1)
                = min (totalRounds (settings room)) (int (length (images room)))
            \<and> state room1 = Playing \<and> currentRound room1 = 0
            \<and> timers srv1 = timers srv @ [(nextTimer srv, StartRoundCb a, 2000)]))
   \<and> (roomAt srv a = Some room \<and> currentImage room = Some img
     \<longrightarrow> (\<exists>srv1 out room1.
            endRound a srv = Inr (srv1, out) \<and> roomAt srv1 a = Some room1
            \<and> state room1 = RoundResult \<and> currentRound room1 = currentRound room
            \<and> roundTimer room1 = Some (nextTimer srv)
            \<and> timers srv1 = timers srv @ [(nextTimer srv, StartRoundCb a, 5000)]
            \<and> length out = 1 \<and> filter isGameOver out = []))
   \<and> (roomAt srv a = Some room \<and> totalRounds (settings room) \<le> currentRound room
     \<longrightarrow> (\<exists>srv1 out room1.
            startRound a now srv = Inr (srv1, out) \<and> roomAt srv1 a = Some room1
            \<and> state room1 = Finished \<and> length out = 1 \<and> length (filter isGameOver out) = 1))
   \<and> finalServer (run lobbyTrace server0) = Some lobbyServer
   \<and> finalServer (run [StartGame ''hs'' ''r'', Fire 0 2000] lobbyServer) = Some playServer
   \<and> finalServer (run [Fire 2 32000] playServer) = Some closedServer
   \<and> finalServer (run [Fire 3 37000] closedServer) = Some finishedServer
   \<and> length (filter isGameOver (emittedOf (run finishedTrace server0))) = 1"
proof (intro conjI impI)
  assume h: "getRoom srv roomId = Some (a, room) \<and> socketIsHost srv sid \<and> images room \<noteq> []"
  then have a: "a < length (heap srv)" using getRoom_SomeD by blast
  show "\<exists>srv1 out room1.
            start_game sid roomId srv = (srv1, out) \<and> roomAt srv1 a = Some room1
            \<and> totalRounds (settings room1)
                = min (totalRounds (settings room)) (int (length (images room)))
            \<and> state room1 = Playing \<and> currentRound room1 = 0
            \<and> timers srv1 = timers srv @ [(nextTimer srv, StartRoundCb a, 2000)]"
    using start_game_result [of srv roomId a room sid] h a
    by (simp add: roomAt_def putRoom_def)
next
  assume h: "roomAt srv a = Some room \<and> currentImage room = Some img"
  then have a: "a < length (heap srv)" by (auto simp: roomAt_def split: if_splits)
  show "\<exists>srv1 out room1.
            endRound a srv = Inr (srv1, out) \<and> roomAt srv1 a = Some room1
            \<and> state room1 = RoundResult \<and> currentRound room1 = currentRound room
            \<and> roundTimer room1 = Some (nextTimer srv)
            \<and> timers srv1 = timers srv @ [(nextTimer srv, StartRoundCb a, 5000)]
            \<and> length out = 1 \<and> filter isGameOver out = []"
    using endRound_result [of srv a room img] h a
    by (simp add: roomAt_def putRoom_def isGameOver_def)
next
  assume h: "roomAt srv a = Some room \<and> totalRounds (settings room) \<le> currentRound room"
  then have a: "a < length (heap srv)" by (auto simp: roomAt_def split: if_splits)
  show "\<exists>srv1 out room1.
            startRound a now srv = Inr (srv1, out) \<and> roomAt srv1 a = Some room1
            \<and> state room1 = Finished \<and> length out = 1 \<and> length (filter isGameOver out) = 1"
    using startRound_last [of srv a room now] h a
    by (auto simp: roomAt_def putRoom_def isGameOver_def clearTimer_def split: option.splits)
next
  show "finalServer (run lobbyTrace server0) = Some lobbyServer" by (rule lobby_reached)
  show "finalServer (run [StartGame ''hs'' ''r'', Fire 0 2000] lobbyServer) = Some playServer"
    by code_simp
  show "finalServer (run [Fire 2 32000] playServer) = Some closedServer" by code_simp
  show "finalServer (run [Fire 3 37000] closedServer) = Some finishedServer" by code_simp
  show "length (filter isGameOver (emittedOf (run finishedTrace server0))) = 1" by code_simp
qed


text \<open>The three steps in the sample game.\<close>

theorem single_round_game_witness:
  "(\<exists>srv1 out room1.
      start_game ''hs'' ''r'' lobbyServer = (srv1, out) \<and> roomAt srv1 0 = Some room1
      \<and> totalRounds (settings lobbyRoom) = 5 \<and> totalRounds (settings room1) = 1)
   \<and> (\<exists>srv1 out room1.
        endRound 0 playServer = Inr (srv1, out) \<and> roomAt srv1 0 = Some room1
        \<and> state room1 = RoundResult \<and> timers srv1 = timers playServer @ [(3, StartRoundCb 0, 5000)]
        \<and> filter isGameOver out = [])
   \<and> (\<exists>srv1 out room1.
        startRound 0 37000 closedServer = Inr (srv1, out) \<and> roomAt srv1 0 = Some room1
        \<and> state room1 = Finished \<and> length (filter isGameOver out) = 1)"
proof -
  have l: "getRoom lobbyServer ''r'' = Some (0, lobbyRoom) \<and> socketIsHost lobbyServer ''hs''
           \<and> images lobbyRoom \<noteq> []"
    by (simp add: getRoom_def roomAt_def lobbyServer_def socketIsHost_def getSocket_def
          lobbyRoom_def)
  have lv: "totalRounds (settings lobbyRoom) = 5" "int (length (images lobbyRoom)) = 1"
    by (simp_all add: lobbyRoom_def)
  have p: "roomAt playServer 0 = Some playRoom \<and> currentImage playRoom = Some eiffelTower"
    by (simp add: roomAt_def playServer_def lobbyServer_def playRoom_def lobbyRoom_def
          currentImage_def)
  have pv: "nextTimer playServer = 3" by (simp add: playServer_def)
  have c: "roomAt closedServer 0 = Some closedRoom
           \<and> totalRounds (settings closedRoom) \<le> currentRound closedRoom"
    by (simp add: roomAt_def closedServer_def lobbyServer_def closedRoom_def playRoom_def)
  note t1 = single_round_game [where srv = lobbyServer and roomId = "''r''" and a = 0
      and room = lobbyRoom and sid = "''hs''"]
  note t2 = single_round_game [where srv = playServer and a = 0 and room = playRoom
      and img = eiffelTower]
  note t3 = single_round_game [where srv = closedServer and a = 0 and room = closedRoom
      and now = 37000]
  have one: "\<exists>srv1 out room1.
      start_game ''hs'' ''r'' lobbyServer = (srv1, out) \<and> roomAt srv1 0 = Some room1
      \<and> totalRounds (settings lobbyRoom) = 5 \<and> totalRounds (settings room1) = 1"
  proof -
    obtain srv1 out room1 where "start_game ''hs'' ''r'' lobbyServer = (srv1, out)"
      "roomAt srv1 0 = Some room1"
      "totalRounds (settings room1)
         = min (totalRounds (settings lobbyRoom)) (int (length (images lobbyRoom)))"
      using t1 l by blast
    then show ?thesis using lv by auto
  qed
  have two: "\<exists>srv1 out room1.
        endRound 0 playServer = Inr (srv1, out) \<and> roomAt srv1 0 = Some room1
        \<and> state room1 = RoundResult \<and> timers srv1 = timers playServer @ [(3, StartRoundCb 0, 5000)]
        \<and> filter isGameOver out = []"
  proof -
    obtain srv1 out room1 where "endRound 0 playServer = Inr (srv1, out)"
      "roomAt srv1 0 = Some room1" "state room1 = RoundResult"
      "timers srv1 = timers playServer @ [(nextTimer playServer, StartRoundCb 0, 5000)]"
      "filter isGameOver out = []"
      using t2 p by blast
    then show ?thesis using pv by auto
  qed
  have three: "\<exists>srv1 out room1.
        startRound 0 37000 closedServer = Inr (srv1, out) \<and> roomAt srv1 0 = Some room1
        \<and> state room1 = Finished \<and> length (filter isGameOver out) = 1"
    using t3 c by blast
  show ?thesis using one two three by blast
qed

text \<open>
  C7 as stated fails: when the single round of the sample game has closed, the room is in
  \<open>RoundResult\<close>, not in \<open>Finished\<close>, the 5-second timer is pending and no \<^verbatim>\<open>game-over\<close> has
  been emitted; the room is finished when that timer has fired.
\<close>

theorem round_result_before_finished:
  "standing (run closedTrace server0) ''r'' = Some (RoundResult, [(''p1'', 0, [(1, False, 0)])])
   \<and> map_option timers (finalServer (run closedTrace server0)) = Some [(3, StartRoundCb 0, 5000)]
   \<and> filter isGameOver (emittedOf (run closedTrace server0)) = []
   \<and> standing (run finishedTrace server0) ''r'' = Some (Finished, [(''p1'', 0, [(1, False, 0)])])"
  by code_simp

section \<open>Who changes the settings\<close>




end
